theory Spec2Isabelle
  imports Main
begin

section \<open>The robot-ordering task (tasks.py) as a state-and-exception program\<close>

text \<open>
  tasks.py drives three kinds of collaborators: the browser page, the RPA libraries
  (HTTP, Tables, PDF, Archive) and the file system. None of them is part of the
  repository, so the model keeps them outside the program:
  \<^item> every call the program issues to a collaborator is an \<open>event\<close>, appended to the
    \<open>trace\<close> of the world in the order in which the calls are issued;
  \<^item> whether a call raises, and which value it returns, is decided by the environment
    \<open>env\<close> from the history of calls issued before it, so the page may answer the
    same call differently every time;
  \<^item> a Python exception is the \<open>Inl\<close> branch of the result; the world is returned in
    both branches, since a handler continues from the world the failed call left.
\<close>

subsection \<open>Exceptions\<close>

text \<open>
  The subclasses of Python's \<open>Exception\<close> that the program or its libraries raise, each
  with its message. The handlers of tasks.py are \<open>except Exception\<close> and
  \<open>except (TimeoutError, Exception)\<close>; every value of this type is caught by both.
\<close>

datatype exn =
    TimeoutError string
  | KeyError string
  | FileNotFoundError string
  | LibraryError string
  | Exception string

subsection \<open>Strings of integers\<close>

text \<open>Python's \<open>str\<close> on an \<open>int\<close>, as the f-strings of the retry loop use it.\<close>

fun str_nat :: "nat \<Rightarrow> string" where
  "str_nat n =
     (if n < 10 then [''0123456789'' ! n]
      else str_nat (n div 10) @ [''0123456789'' ! (n mod 10)])"

declare str_nat.simps [simp del]

definition str_int :: "int \<Rightarrow> string" where
  "str_int i = (if i < 0 then ''-'' @ str_nat (nat (- i)) else str_nat (nat i))"

subsection \<open>Paths\<close>

text \<open>
  \<open>pathlib.Path\<close> on POSIX, for relative paths: a path is its list of components.
  Parsing a string splits it at \<open>/\<close> and drops the empty components and the \<open>.\<close>
  components; \<open>str\<close> joins the components with \<open>/\<close> (and gives \<open>.\<close> for no component).
  The operand of \<open>/\<close> at both call sites of tasks.py begins with a letter
  (\<open>screenshot_\<close>, \<open>receipt_\<close>), so it is never absolute and \<open>truediv\<close> appends its
  components.
\<close>

fun split_on :: "char \<Rightarrow> string \<Rightarrow> string list" where
  "split_on c [] = [[]]"
| "split_on c (x # xs) =
     (if x = c then [] # split_on c xs
      else (case split_on c xs of
              [] \<Rightarrow> [[x]]
            | y # ys \<Rightarrow> (x # y) # ys))"

definition parse_parts :: "string \<Rightarrow> string list" where
  "parse_parts s = filter (\<lambda>p. p \<noteq> [] \<and> p \<noteq> ''.'') (split_on (CHR ''/'') s)"

fun join_with :: "string \<Rightarrow> string list \<Rightarrow> string" where
  "join_with sep [] = []"
| "join_with sep [p] = p"
| "join_with sep (p # q # ps) = p @ sep @ join_with sep (q # ps)"

type_synonym pure_path = "string list"

definition Path :: "string \<Rightarrow> pure_path" where
  "Path s = parse_parts s"

definition truediv :: "pure_path \<Rightarrow> string \<Rightarrow> pure_path" where
  "truediv p name = p @ parse_parts name"

definition str_path :: "pure_path \<Rightarrow> string" where
  "str_path p = (if p = [] then ''.'' else join_with ''/'' p)"

subsection \<open>Constants of tasks.py\<close>

definition ROBOT_ORDER_URL :: string where
  "ROBOT_ORDER_URL = ''https://robotsparebinindustries.com/#/robot-order''"

definition ORDERS_CSV_URL :: string where
  "ORDERS_CSV_URL = ''https://robotsparebinindustries.com/orders.csv''"

definition ORDERS_CSV_FILE :: string where
  "ORDERS_CSV_FILE = ''orders.csv''"

definition SCREENSHOTS_DIR :: pure_path where
  "SCREENSHOTS_DIR = Path ''output/orders_screenshots''"

definition RECEIPTS_DIR :: pure_path where
  "RECEIPTS_DIR = Path ''output/receipt_pdf''"

definition ARCHIVE_PATH :: pure_path where
  "ARCHIVE_PATH = Path ''output/receipts_zip.zip''"

definition MAX_RETRIES :: int where
  "MAX_RETRIES = 10"

definition MODAL_TIMEOUT :: int where
  "MODAL_TIMEOUT = 1000"

definition ERROR_TIMEOUT :: int where
  "ERROR_TIMEOUT = 2000"

subsection \<open>Files, events, the world and the environment\<close>

text \<open>
  A regular file on disk: a screenshot with the image bytes the page delivered, the PDF
  rendered from an HTML document, a downloaded response body, or a zip archive with
  its members by name.
\<close>

datatype disk_file =
    Png string
  | Pdf string
  | Body string
  | Zip "string \<Rightarrow> disk_file option"

text \<open>A row of the order table: column name to cell, as \<open>RPA.Tables\<close> yields it.\<close>

type_synonym order = "string \<rightharpoonup> string"

text \<open>
  The calls tasks.py issues, with their arguments:
  \<open>Path.mkdir\<close>, \<open>browser.page()\<close>, \<open>page.goto\<close>, \<open>locator.first.is_visible(timeout)\<close>,
  \<open>page.click\<close>, \<open>page.select_option\<close>, \<open>page.check\<close>,
  \<open>page.get_by_placeholder(p).fill(v)\<close>, \<open>locator.screenshot(path)\<close>,
  \<open>locator.inner_html()\<close>, \<open>time.sleep\<close> (in milliseconds), \<open>HTTP.download\<close>,
  \<open>Tables.read_table_from_csv\<close>, \<open>PDF.html_to_pdf\<close> and
  \<open>Archive.archive_folder_with_zip\<close>.
\<close>

datatype event =
    Mkdir string
  | BrowserPage
  | Goto string
  | IsVisible string int
  | Click string
  | SelectOption string string
  | CheckInput string
  | FillPlaceholder string string
  | Screenshot string string
  | InnerHtml string
  | Sleep nat
  | Download string bool
  | ReadTableFromCsv string
  | HtmlToPdf string string
  | ArchiveFolderWithZip string string

text \<open>
  The world: the calls issued so far, the lines printed, the regular files on disk by
  path, and the module-level singletons \<open>_page\<close>, \<open>_pdf\<close> and \<open>_archive\<close> (whether each
  has been created; \<open>_http\<close> and \<open>_tables\<close> are never read by the task).
\<close>

record world =
  trace :: "event list"
  printed :: "string list"
  fs :: "string \<rightharpoonup> disk_file"
  page_inst :: bool
  pdf_inst :: bool
  archive_inst :: bool

text \<open>
  The environment: for a call and the history before it, the exception it raises if
  any; the boolean or the string it returns otherwise; and the table
  \<open>read_table_from_csv\<close> parses out of a file.
\<close>

record env =
  raises :: "event list \<Rightarrow> event \<Rightarrow> exn option"
  returns_bool :: "event list \<Rightarrow> event \<Rightarrow> bool"
  returns_str :: "event list \<Rightarrow> event \<Rightarrow> string"
  table_of :: "disk_file \<Rightarrow> order list"

subsection \<open>Sequencing, raising and handling\<close>

type_synonym 'a prog = "world \<Rightarrow> (exn + 'a) \<times> world"

definition ret :: "'a \<Rightarrow> 'a prog" where
  "ret a w = (Inr a, w)"

definition raise :: "exn \<Rightarrow> 'a prog" where
  "raise e w = (Inl e, w)"

definition bnd :: "'a prog \<Rightarrow> ('a \<Rightarrow> 'b prog) \<Rightarrow> 'b prog" where
  "bnd m f w = (case m w of (Inl e, w') \<Rightarrow> (Inl e, w') | (Inr a, w') \<Rightarrow> f a w')"

definition try_except :: "'a prog \<Rightarrow> (exn \<Rightarrow> 'a prog) \<Rightarrow> 'a prog" where
  "try_except m h w = (case m w of (Inl e, w') \<Rightarrow> h e w' | (Inr a, w') \<Rightarrow> (Inr a, w'))"

text \<open>
  A call to a collaborator: the call is recorded, and the environment decides from the
  history before it whether it raises and what it returns.
\<close>

definition call_with :: "(event list \<Rightarrow> event \<Rightarrow> 'a) \<Rightarrow> env \<Rightarrow> event \<Rightarrow> 'a prog" where
  "call_with val env ev w =
     (case raises env (trace w) ev of
        Some e \<Rightarrow> (Inl e, w\<lparr>trace := trace w @ [ev]\<rparr>)
      | None \<Rightarrow> (Inr (val (trace w) ev), w\<lparr>trace := trace w @ [ev]\<rparr>))"

definition call :: "env \<Rightarrow> event \<Rightarrow> unit prog" where
  "call env ev = call_with (\<lambda>h e. ()) env ev"

definition is_visible :: "env \<Rightarrow> string \<Rightarrow> int \<Rightarrow> bool prog" where
  "is_visible env selector timeout =
     call_with (returns_bool env) env (IsVisible selector timeout)"

definition inner_html :: "env \<Rightarrow> string \<Rightarrow> string prog" where
  "inner_html env selector = call_with (returns_str env) env (InnerHtml selector)"

definition sleep :: "nat \<Rightarrow> unit prog" where
  "sleep ms w = (Inr (), w\<lparr>trace := trace w @ [Sleep ms]\<rparr>)"

definition print :: "string \<Rightarrow> unit prog" where
  "print s w = (Inr (), w\<lparr>printed := printed w @ [s]\<rparr>)"

definition subscript :: "order \<Rightarrow> string \<Rightarrow> string prog" where
  "subscript order key =
     (case order key of None \<Rightarrow> raise (KeyError key) | Some v \<Rightarrow> ret v)"

subsection \<open>Library calls that write files\<close>

text \<open>
  Modelled from the spec: the file-system effect of the library calls
  \<open>locator.screenshot\<close>, \<open>HTTP.download\<close>, \<open>PDF.html_to_pdf\<close>,
  \<open>Tables.read_table_from_csv\<close> and \<open>Archive.archive_folder_with_zip\<close>, whose code is
  not part of tasks.py. A successful screenshot writes the image to the given path; a
  download stores the response body under the last segment of the URL, replacing an
  existing file when \<open>overwrite\<close> is set and keeping it otherwise; \<open>html_to_pdf\<close> writes
  the rendered document to the given path; \<open>read_table_from_csv\<close> needs the file to
  exist; \<open>archive_folder_with_zip\<close> writes, at the archive path and replacing what is
  there, a zip of every file directly in the folder.
\<close>

definition element_screenshot :: "env \<Rightarrow> string \<Rightarrow> string \<Rightarrow> unit prog" where
  "element_screenshot env selector path =
     bnd (call_with (returns_str env) env (Screenshot selector path)) (\<lambda>image w.
       (Inr (), w\<lparr>fs := (fs w)(path \<mapsto> Png image)\<rparr>))"

definition url_file_name :: "string \<Rightarrow> string" where
  "url_file_name url = last (split_on (CHR ''/'') url)"

definition http_download :: "env \<Rightarrow> string \<Rightarrow> bool \<Rightarrow> unit prog" where
  "http_download env url overwrite =
     bnd (call_with (returns_str env) env (Download url overwrite)) (\<lambda>body w.
       if \<not> overwrite \<and> fs w (url_file_name url) \<noteq> None then (Inr (), w)
       else (Inr (), w\<lparr>fs := (fs w)(url_file_name url \<mapsto> Body body)\<rparr>))"

definition html_to_pdf :: "env \<Rightarrow> string \<Rightarrow> string \<Rightarrow> unit prog" where
  "html_to_pdf env html path =
     bnd (call env (HtmlToPdf html path)) (\<lambda>_ w.
       (Inr (), w\<lparr>fs := (fs w)(path \<mapsto> Pdf html)\<rparr>))"

definition read_table_from_csv :: "env \<Rightarrow> string \<Rightarrow> order list prog" where
  "read_table_from_csv env path =
     bnd (call env (ReadTableFromCsv path)) (\<lambda>_ w.
       case fs w path of
         None \<Rightarrow> (Inl (FileNotFoundError path), w)
       | Some f \<Rightarrow> (Inr (table_of env f), w))"

definition folder_files :: "(string \<rightharpoonup> disk_file) \<Rightarrow> string \<Rightarrow> (string \<rightharpoonup> disk_file)" where
  "folder_files files folder =
     (\<lambda>name. if parse_parts name = [name] then files (folder @ ''/'' @ name) else None)"

definition archive_folder_with_zip :: "env \<Rightarrow> string \<Rightarrow> string \<Rightarrow> unit prog" where
  "archive_folder_with_zip env folder archive_name =
     bnd (call env (ArchiveFolderWithZip folder archive_name)) (\<lambda>_ w.
       (Inr (), w\<lparr>fs := (fs w)(archive_name \<mapsto> Zip (folder_files (fs w) folder))\<rparr>))"

subsection \<open>The functions of tasks.py\<close>

definition get_pdf :: "unit prog" where
  "get_pdf w = (Inr (), if pdf_inst w then w else w\<lparr>pdf_inst := True\<rparr>)"

definition get_archive :: "unit prog" where
  "get_archive w = (Inr (), if archive_inst w then w else w\<lparr>archive_inst := True\<rparr>)"

definition get_page :: "env \<Rightarrow> unit prog" where
  "get_page env w =
     (if page_inst w then (Inr (), w)
      else bnd (call env BrowserPage) (\<lambda>_ w'. (Inr (), w'\<lparr>page_inst := True\<rparr>)) w)"

definition open_robot_order_website :: "env \<Rightarrow> unit prog" where
  "open_robot_order_website env =
     bnd (get_page env) (\<lambda>_.
     call env (Goto ROBOT_ORDER_URL))"

definition close_annoying_modal :: "env \<Rightarrow> int \<Rightarrow> unit prog" where
  "close_annoying_modal env timeout =
     bnd (get_page env) (\<lambda>_.
     try_except
       (bnd (is_visible env ''.modal-dialog'' timeout) (\<lambda>visible.
          if visible then call env (Click ''//button[text()='OK']'') else ret ()))
       (\<lambda>e. ret ()))"

definition has_server_error :: "env \<Rightarrow> int \<Rightarrow> bool prog" where
  "has_server_error env timeout =
     bnd (get_page env) (\<lambda>_.
     try_except
       (is_visible env ''.alert.alert-danger'' timeout)
       (\<lambda>e. ret False))"

fun retry_loop :: "env \<Rightarrow> int \<Rightarrow> int list \<Rightarrow> bool prog" where
  "retry_loop env max_retries [] =
     raise (Exception (''Order failed after '' @ str_int max_retries @ '' retry attempts''))"
| "retry_loop env max_retries (attempt # rest) =
     bnd (call env (Click ''#order'')) (\<lambda>_.
     bnd (sleep 300) (\<lambda>_.
     bnd (has_server_error env ERROR_TIMEOUT) (\<lambda>server_error.
       if \<not> server_error then
         bnd (if attempt > 0
              then print (''Order succeeded after '' @ str_int (attempt + 1) @ '' attempts'')
              else ret ()) (\<lambda>_.
         ret True)
       else
         bnd (if attempt < max_retries - 1
              then print (''Server error detected, retrying... ('' @ str_int (attempt + 1)
                          @ ''/'' @ str_int max_retries @ '')'')
              else ret ()) (\<lambda>_.
         retry_loop env max_retries rest))))"

definition py_range :: "int \<Rightarrow> int list" where
  "py_range n = [0..n - 1]"

definition submit_order_with_retry :: "env \<Rightarrow> int \<Rightarrow> bool prog" where
  "submit_order_with_retry env max_retries =
     bnd (get_page env) (\<lambda>_.
     retry_loop env max_retries (py_range max_retries))"

definition screenshot_robot :: "env \<Rightarrow> order \<Rightarrow> unit prog" where
  "screenshot_robot env order =
     bnd (get_page env) (\<lambda>_.
     bnd (subscript order ''Order number'') (\<lambda>order_no.
     element_screenshot env ''#robot-preview-image''
       (str_path (truediv SCREENSHOTS_DIR (''screenshot_'' @ order_no @ ''.png'')))))"

definition full_html :: "string \<Rightarrow> string \<Rightarrow> string" where
  "full_html receipt_html screenshot_path =
     [CHR 0x0A] @
     ''    <!DOCTYPE html>'' @ [CHR 0x0A] @
     ''        <html>'' @ [CHR 0x0A] @
     ''        <head>'' @ [CHR 0x0A] @
     ''            <meta charset='' @ [CHR 0x22] @ ''UTF-8'' @ [CHR 0x22] @ ''>'' @ [CHR 0x0A] @
     ''        </head>'' @ [CHR 0x0A] @
     ''        <body>'' @ [CHR 0x0A] @
     ''            <div>'' @ [CHR 0x0A] @
     ''                '' @ receipt_html @ [CHR 0x0A] @
     ''            </div>'' @ [CHR 0x0A] @
     ''            <div style='' @ [CHR 0x22] @
       '' margin:100px 400px; display:flex; justify-content:center; max-width:100%; width:200px; height:auto;''
       @ [CHR 0x22, CHR 0x22] @ ''>'' @ [CHR 0x0A] @
     ''                <img src='' @ [CHR 0x22] @ screenshot_path @ [CHR 0x22] @
       '' alt='' @ [CHR 0x22] @ ''Robot Preview'' @ [CHR 0x22] @ ''>'' @ [CHR 0x0A] @
     ''            </div>'' @ [CHR 0x0A] @
     ''        </body>'' @ [CHR 0x0A] @
     ''        </html>'' @ [CHR 0x0A] @
     ''    ''"

definition store_receipt_as_pdf :: "env \<Rightarrow> order \<Rightarrow> unit prog" where
  "store_receipt_as_pdf env order =
     bnd (get_page env) (\<lambda>_.
     bnd get_pdf (\<lambda>_.
     bnd (subscript order ''Order number'') (\<lambda>order_no.
     bnd (inner_html env ''#receipt'') (\<lambda>receipt_html.
     html_to_pdf env
       (full_html receipt_html (''output/orders_screenshots/screenshot_'' @ order_no @ ''.png''))
       (str_path (truediv RECEIPTS_DIR (''receipt_'' @ order_no @ ''.pdf'')))))))"

definition fill_and_submit_orders :: "env \<Rightarrow> order \<Rightarrow> unit prog" where
  "fill_and_submit_orders env order =
     bnd (get_page env) (\<lambda>_.
     bnd (subscript order ''Head'') (\<lambda>head.
     bnd (call env (SelectOption ''#head'' head)) (\<lambda>_.
     bnd (subscript order ''Body'') (\<lambda>body.
     bnd (call env (CheckInput (''input[type='radio'][value='' @ [CHR 0x27] @ body @ [CHR 0x27] @ '']''))) (\<lambda>_.
     bnd (subscript order ''Legs'') (\<lambda>legs.
     bnd (call env (FillPlaceholder ''Enter the part number for the legs'' legs)) (\<lambda>_.
     bnd (subscript order ''Address'') (\<lambda>address.
     bnd (call env (FillPlaceholder ''Shipping address'' address)) (\<lambda>_.
     bnd (call env (Click ''//button[text()='Preview']'')) (\<lambda>_.
     bnd (screenshot_robot env order) (\<lambda>_.
     bnd (submit_order_with_retry env MAX_RETRIES) (\<lambda>_.
     bnd (store_receipt_as_pdf env order) (\<lambda>_.
     bnd (call env (Click ''#order-another'')) (\<lambda>_.
     close_annoying_modal env MODAL_TIMEOUT))))))))))))))"

definition download_csv :: "env \<Rightarrow> unit prog" where
  "download_csv env =
     http_download env ''https://robotsparebinindustries.com/orders.csv'' True"

fun for_rows :: "env \<Rightarrow> order list \<Rightarrow> unit prog" where
  "for_rows env [] = ret ()"
| "for_rows env (row # rest) =
     bnd (fill_and_submit_orders env row) (\<lambda>_.
     for_rows env rest)"

definition get_orders_from_csv :: "env \<Rightarrow> unit prog" where
  "get_orders_from_csv env =
     bnd (read_table_from_csv env ORDERS_CSV_FILE) (\<lambda>table.
     for_rows env table)"

definition archive_receipts :: "env \<Rightarrow> unit prog" where
  "archive_receipts env =
     bnd get_archive (\<lambda>_.
     archive_folder_with_zip env (str_path RECEIPTS_DIR) (str_path ARCHIVE_PATH))"

definition order_robots_from_RobotSpareBin :: "env \<Rightarrow> unit prog" where
  "order_robots_from_RobotSpareBin env =
     bnd (call env (Mkdir (str_path SCREENSHOTS_DIR))) (\<lambda>_.
     bnd (call env (Mkdir (str_path RECEIPTS_DIR))) (\<lambda>_.
     bnd (get_page env) (\<lambda>_.
     bnd (open_robot_order_website env) (\<lambda>_.
     bnd (close_annoying_modal env MODAL_TIMEOUT) (\<lambda>_.
     bnd (download_csv env) (\<lambda>_.
     bnd (get_orders_from_csv env) (\<lambda>_.
     archive_receipts env)))))))"

subsection \<open>Vocabulary for the properties\<close>

text \<open>
  The two visibility checks of tasks.py, and what it means that the page shows the
  modal or the alert at a history: the check does not raise and returns \<open>True\<close>.
\<close>

definition modal_check :: "int \<Rightarrow> event" where
  "modal_check timeout = IsVisible ''.modal-dialog'' timeout"

definition modal_seen :: "env \<Rightarrow> event list \<Rightarrow> int \<Rightarrow> bool" where
  "modal_seen env h timeout \<longleftrightarrow>
     raises env h (modal_check timeout) = None \<and> returns_bool env h (modal_check timeout)"

definition alert_check :: "int \<Rightarrow> event" where
  "alert_check timeout = IsVisible ''.alert.alert-danger'' timeout"

definition alert_seen :: "env \<Rightarrow> event list \<Rightarrow> int \<Rightarrow> bool" where
  "alert_seen env h timeout \<longleftrightarrow>
     raises env h (alert_check timeout) = None \<and> returns_bool env h (alert_check timeout)"

text \<open>
  One submit attempt issues three calls: the click on the order button, the settle
  sleep and the alert check. \<open>after_attempts h n\<close> is the history \<open>h\<close> followed by
  \<open>n\<close> attempts, and \<open>submit_clicks w w'\<close> counts the clicks on the order button
  issued between the worlds \<open>w\<close> and \<open>w'\<close>.
\<close>

definition attempt_events :: "event list" where
  "attempt_events = [Click ''#order'', Sleep 300, alert_check ERROR_TIMEOUT]"

definition after_attempts :: "event list \<Rightarrow> nat \<Rightarrow> event list" where
  "after_attempts h n = h @ concat (replicate n attempt_events)"

definition issued :: "world \<Rightarrow> world \<Rightarrow> event list" where
  "issued w w' = drop (length (trace w)) (trace w')"

definition submit_clicks :: "world \<Rightarrow> world \<Rightarrow> nat" where
  "submit_clicks w w' = count_list (issued w w') (Click ''#order'')"

subsection \<open>Concrete pages and worlds\<close>

text \<open>
  A world in which the page singleton exists and nothing else has happened, and a
  family of environments: no call raises except as \<open>r\<close> says, the modal is seen as
  \<open>modal\<close> says, the alert as \<open>alert\<close> says, and the order table holds \<open>rows\<close>.
\<close>

definition ready_world :: world where
  "ready_world =
     \<lparr>trace = [BrowserPage], printed = [], fs = Map.empty,
      page_inst = True, pdf_inst = False, archive_inst = False\<rparr>"

definition site ::
  "(event list \<Rightarrow> event \<Rightarrow> exn option) \<Rightarrow> (event list \<Rightarrow> bool) \<Rightarrow> (event list \<Rightarrow> bool)
     \<Rightarrow> order list \<Rightarrow> env" where
  "site r modal alert rows =
     \<lparr>raises = r,
      returns_bool = (\<lambda>h ev. case ev of
                         IsVisible selector timeout \<Rightarrow>
                           (if selector = ''.modal-dialog'' then modal h else alert h)
                       | _ \<Rightarrow> False),
      returns_str = (\<lambda>h ev. ''bytes''),
      table_of = (\<lambda>f. rows)\<rparr>"

definition never_raises :: "event list \<Rightarrow> event \<Rightarrow> exn option" where
  "never_raises h ev = None"

definition checks_time_out :: "event list \<Rightarrow> event \<Rightarrow> exn option" where
  "checks_time_out h ev =
     (case ev of IsVisible selector timeout \<Rightarrow> Some (TimeoutError ''Timeout exceeded'')
      | _ \<Rightarrow> None)"

definition clicks_fail :: "event list \<Rightarrow> event \<Rightarrow> exn option" where
  "clicks_fail h ev =
     (case ev of Click selector \<Rightarrow> Some (LibraryError ''element is not clickable'')
      | _ \<Rightarrow> None)"

subsection \<open>Vocabulary for the per-order properties\<close>

text \<open>
  The file names the specification gives to the screenshot and the receipt of an order
  number, the paths tasks.py computes for them with \<open>pathlib\<close>, the download call of the
  order feed, the calls that write a file, and the two halves of
  \<open>fill_and_submit_orders\<close> around its submit step (the lines before
  \<open>submit_order_with_retry()\<close> and the lines after it). \<open>order_1\<close> is a sample row.
\<close>

definition screenshot_file :: "string \<Rightarrow> string" where
  "screenshot_file order_no = ''output/orders_screenshots/screenshot_'' @ order_no @ ''.png''"

definition receipt_file :: "string \<Rightarrow> string" where
  "receipt_file order_no = ''output/receipt_pdf/receipt_'' @ order_no @ ''.pdf''"

definition csv_download :: event where
  "csv_download = Download ''https://robotsparebinindustries.com/orders.csv'' True"

definition fill_and_preview :: "env \<Rightarrow> order \<Rightarrow> unit prog" where
  "fill_and_preview env order =
     bnd (get_page env) (\<lambda>_.
     bnd (subscript order ''Head'') (\<lambda>head.
     bnd (call env (SelectOption ''#head'' head)) (\<lambda>_.
     bnd (subscript order ''Body'') (\<lambda>body.
     bnd (call env (CheckInput (''input[type='radio'][value='' @ [CHR 0x27] @ body @ [CHR 0x27] @ '']''))) (\<lambda>_.
     bnd (subscript order ''Legs'') (\<lambda>legs.
     bnd (call env (FillPlaceholder ''Enter the part number for the legs'' legs)) (\<lambda>_.
     bnd (subscript order ''Address'') (\<lambda>address.
     bnd (call env (FillPlaceholder ''Shipping address'' address)) (\<lambda>_.
     bnd (call env (Click ''//button[text()='Preview']'')) (\<lambda>_.
     screenshot_robot env order))))))))))"

definition receipt_and_next :: "env \<Rightarrow> order \<Rightarrow> unit prog" where
  "receipt_and_next env order =
     bnd (store_receipt_as_pdf env order) (\<lambda>_.
     bnd (call env (Click ''#order-another'')) (\<lambda>_.
     close_annoying_modal env MODAL_TIMEOUT))"

definition form_events :: "string \<Rightarrow> string \<Rightarrow> string \<Rightarrow> string \<Rightarrow> event list" where
  "form_events head body legs address =
     [SelectOption ''#head'' head,
      CheckInput (''input[type='radio'][value='' @ [CHR 0x27] @ body @ [CHR 0x27] @ '']''),
      FillPlaceholder ''Enter the part number for the legs'' legs,
      FillPlaceholder ''Shipping address'' address]"

definition screenshot_path_of :: "string \<Rightarrow> string" where
  "screenshot_path_of order_no =
     str_path (truediv SCREENSHOTS_DIR (''screenshot_'' @ order_no @ ''.png''))"

definition receipt_path_of :: "string \<Rightarrow> string" where
  "receipt_path_of order_no =
     str_path (truediv RECEIPTS_DIR (''receipt_'' @ order_no @ ''.pdf''))"

definition writes_file :: "event \<Rightarrow> bool" where
  "writes_file ev =
     (case ev of
        Screenshot selector path \<Rightarrow> True
      | Download url overwrite \<Rightarrow> True
      | HtmlToPdf html path \<Rightarrow> True
      | ArchiveFolderWithZip folder archive_name \<Rightarrow> True
      | _ \<Rightarrow> False)"

definition order_1 :: order where
  "order_1 = [''Order number'' \<mapsto> ''1'', ''Head'' \<mapsto> ''1'', ''Body'' \<mapsto> ''2'',
              ''Legs'' \<mapsto> ''3'', ''Address'' \<mapsto> ''Address 123'']"

subsection \<open>Vocabulary for the whole run\<close>

text \<open>
  The steps of \<open>order_robots_from_RobotSpareBin\<close> before \<open>get_orders_from_csv()\<close>: the
  two \<open>mkdir\<close> calls, the page, the site, the first modal and the download. The archive
  call and the render call are recognised in a trace by \<open>is_archive_call\<close> and
  \<open>is_pdf_call\<close>. \<open>fresh_world\<close> is the world at the start of a process: no call issued,
  no file, no singleton created. \<open>order_slash\<close> is a row whose order number holds path
  separators.
\<close>

definition prepare_run :: "env \<Rightarrow> unit prog" where
  "prepare_run env =
     bnd (call env (Mkdir (str_path SCREENSHOTS_DIR))) (\<lambda>_.
     bnd (call env (Mkdir (str_path RECEIPTS_DIR))) (\<lambda>_.
     bnd (get_page env) (\<lambda>_.
     bnd (open_robot_order_website env) (\<lambda>_.
     bnd (close_annoying_modal env MODAL_TIMEOUT) (\<lambda>_.
     download_csv env)))))"

definition is_archive_call :: "event \<Rightarrow> bool" where
  "is_archive_call ev =
     (case ev of ArchiveFolderWithZip folder archive_name \<Rightarrow> True | _ \<Rightarrow> False)"

definition is_pdf_call :: "event \<Rightarrow> bool" where
  "is_pdf_call ev = (case ev of HtmlToPdf html path \<Rightarrow> True | _ \<Rightarrow> False)"

definition fresh_world :: world where
  "fresh_world =
     \<lparr>trace = [], printed = [], fs = Map.empty,
      page_inst = False, pdf_inst = False, archive_inst = False\<rparr>"

definition order_slash :: order where
  "order_slash = order_1(''Order number'' \<mapsto> ''a//b'')"





section \<open>Properties\<close>

subsection \<open>Sequencing\<close>

lemma bnd_ret [simp]: "bnd (ret a) f = f a"
  by (rule ext) (simp add: bnd_def ret_def)

lemma bnd_raise [simp]: "bnd (raise e) f = raise e"
  by (rule ext) (simp add: bnd_def raise_def)


lemma bnd_Inl: "m w = (Inl e, w1) \<Longrightarrow> bnd m f w = (Inl e, w1)"
  by (simp add: bnd_def)

lemma bnd_assoc: "bnd (bnd m f) g = bnd m (\<lambda>a. bnd (f a) g)"
  by (rule ext) (simp add: bnd_def split: prod.splits sum.splits)

lemma bnd_eq_Inr_iff:
  "bnd m f w = (Inr b, w') \<longleftrightarrow> (\<exists>a w1. m w = (Inr a, w1) \<and> f a w1 = (Inr b, w'))"
  by (auto simp: bnd_def split: prod.splits sum.splits)

lemma bnd_eq_Inl_iff:
  "bnd m f w = (Inl e, w') \<longleftrightarrow>
     m w = (Inl e, w') \<or> (\<exists>a w1. m w = (Inr a, w1) \<and> f a w1 = (Inl e, w'))"
  by (auto simp: bnd_def split: prod.splits sum.splits)

lemma call_with_eq:
  "call_with val env ev w =
     ((case raises env (trace w) ev of Some e \<Rightarrow> Inl e | None \<Rightarrow> Inr (val (trace w) ev)),
      w\<lparr>trace := trace w @ [ev]\<rparr>)"
  by (simp add: call_with_def split: option.splits)

lemma get_page_inst [simp]: "page_inst w \<Longrightarrow> get_page env w = (Inr (), w)"
  by (simp add: get_page_def)

lemma print_or_skip:
  "(if c then print s else ret ()) w =
     (Inr (), w\<lparr>printed := printed w @ (if c then [s] else [])\<rparr>)"
  by (simp add: print_def ret_def)

subsection \<open>The two visibility checks\<close>

lemma close_annoying_modal_eq:
  "page_inst w \<Longrightarrow> close_annoying_modal env timeout w =
     (Inr (), w\<lparr>trace := trace w @ modal_check timeout #
        (if modal_seen env (trace w) timeout then [Click ''//button[text()='OK']''] else [])\<rparr>)"
  by (simp add: close_annoying_modal_def bnd_def try_except_def is_visible_def call_def
      call_with_eq ret_def modal_seen_def modal_check_def split: option.splits)

lemma has_server_error_eq:
  "page_inst w \<Longrightarrow> has_server_error env timeout w =
     (Inr (alert_seen env (trace w) timeout), w\<lparr>trace := trace w @ [alert_check timeout]\<rparr>)"
  by (simp add: has_server_error_def bnd_def try_except_def is_visible_def
      call_with_eq ret_def alert_seen_def alert_check_def split: option.splits)

text \<open>
  C6: for every timeout, when the page singleton exists and no modal is seen within the
  timeout (the check returns \<open>False\<close> or raises, a timeout included),
  \<open>close_annoying_modal\<close> returns normally, the only call it issues is the visibility
  check itself (so no click), and nothing else in the world changes.
\<close>

theorem close_annoying_modal_without_modal:
  assumes "page_inst w" and "\<not> modal_seen env (trace w) timeout"
  shows "close_annoying_modal env timeout w =
           (Inr (), w\<lparr>trace := trace w @ [modal_check timeout]\<rparr>)"
  using assms by (simp add: close_annoying_modal_eq)

theorem close_annoying_modal_without_modal_witness:
  "page_inst ready_world \<and>
   \<not> modal_seen (site checks_time_out (\<lambda>h. True) (\<lambda>h. False) []) (trace ready_world) 1000 \<and>
   close_annoying_modal (site checks_time_out (\<lambda>h. True) (\<lambda>h. False) []) 1000 ready_world =
     (Inr (), ready_world\<lparr>trace := [BrowserPage, modal_check 1000]\<rparr>)"
  using close_annoying_modal_without_modal
    [of ready_world "site checks_time_out (\<lambda>h. True) (\<lambda>h. False) []" 1000]
  by (simp add: ready_world_def site_def checks_time_out_def modal_seen_def modal_check_def)

text \<open>
  C9: once the page singleton exists, \<open>close_annoying_modal\<close> returns normally whatever
  the page does: whether the visibility check raises, reports no modal, or reports a
  modal whose click then raises. It prints nothing and writes no file, and its caller
  receives the same result in all three cases.
\<close>

theorem close_annoying_modal_never_raises:
  assumes "page_inst w"
  shows "fst (close_annoying_modal env timeout w) = Inr () \<and>
         printed (snd (close_annoying_modal env timeout w)) = printed w \<and>
         fs (snd (close_annoying_modal env timeout w)) = fs w"
  using assms by (simp add: close_annoying_modal_eq)

theorem close_annoying_modal_never_raises_witness:
  "page_inst ready_world \<and>
   modal_seen (site clicks_fail (\<lambda>h. True) (\<lambda>h. False) []) (trace ready_world) 1000 \<and>
   raises (site clicks_fail (\<lambda>h. True) (\<lambda>h. False) [])
     (trace ready_world @ [modal_check 1000]) (Click ''//button[text()='OK']'') \<noteq> None \<and>
   fst (close_annoying_modal (site clicks_fail (\<lambda>h. True) (\<lambda>h. False) []) 1000 ready_world)
     = Inr ()"
  using close_annoying_modal_never_raises
    [of ready_world "site clicks_fail (\<lambda>h. True) (\<lambda>h. False) []" 1000]
  by (simp add: ready_world_def site_def clicks_fail_def modal_seen_def modal_check_def)

text \<open>
  C10: once the page singleton exists, \<open>has_server_error\<close> always returns a boolean and
  never raises. When the alert-visibility check raises (a timeout or anything else) it
  returns \<open>False\<close>; otherwise it returns what the check returned. In the retry loop a
  check that raises after a successful click therefore ends the loop with success.
\<close>

theorem has_server_error_total:
  assumes "page_inst w"
  shows "\<exists>b. fst (has_server_error env timeout w) = Inr b \<and>
           (raises env (trace w) (alert_check timeout) \<noteq> None \<longrightarrow> b = False) \<and>
           (raises env (trace w) (alert_check timeout) = None \<longrightarrow>
              b = returns_bool env (trace w) (alert_check timeout))"
  using assms by (simp add: has_server_error_eq alert_seen_def)

theorem has_server_error_total_witness:
  "page_inst ready_world \<and>
   raises (site checks_time_out (\<lambda>h. False) (\<lambda>h. True) []) (trace ready_world)
     (alert_check 2000) = Some (TimeoutError ''Timeout exceeded'') \<and>
   fst (has_server_error (site checks_time_out (\<lambda>h. False) (\<lambda>h. True) []) 2000 ready_world)
     = Inr False"
  using has_server_error_total
    [of ready_world "site checks_time_out (\<lambda>h. False) (\<lambda>h. True) []" 2000]
  by (auto simp: ready_world_def site_def checks_time_out_def alert_check_def)

subsection \<open>Submit with retry\<close>

lemma after_attempts_0 [simp]: "after_attempts h 0 = h"
  by (simp add: after_attempts_def)

lemma after_attempts_Suc: "after_attempts h (Suc n) = after_attempts (h @ attempt_events) n"
  by (simp add: after_attempts_def)

lemma retry_loop_Cons:
  assumes "page_inst w" and "raises env (trace w) (Click ''#order'') = None"
  shows "retry_loop env m (a # rest) w =
     (if alert_seen env (trace w @ [Click ''#order'', Sleep 300]) ERROR_TIMEOUT
      then retry_loop env m rest
             (w\<lparr>trace := trace w @ attempt_events,
                printed := printed w @
                  (if a < m - 1
                   then [''Server error detected, retrying... ('' @ str_int (a + 1)
                          @ ''/'' @ str_int m @ '')'']
                   else [])\<rparr>)
      else (Inr True,
            w\<lparr>trace := trace w @ attempt_events,
              printed := printed w @
                (if a > 0 then [''Order succeeded after '' @ str_int (a + 1) @ '' attempts'']
                 else [])\<rparr>))"
  using assms
  by (simp add: bnd_def call_def call_with_eq sleep_def has_server_error_eq print_or_skip
      ret_def attempt_events_def)

declare retry_loop.simps(2) [simp del]

lemma retry_loop_succeeds:
  assumes "page_inst w" and "k < length xs"
    and "\<forall>i\<le>k. raises env (after_attempts (trace w) i) (Click ''#order'') = None"
    and "\<forall>i<k. alert_seen env (after_attempts (trace w) i @ [Click ''#order'', Sleep 300])
                  ERROR_TIMEOUT"
    and "\<not> alert_seen env (after_attempts (trace w) k @ [Click ''#order'', Sleep 300])
              ERROR_TIMEOUT"
  shows "\<exists>w'. retry_loop env m xs w = (Inr True, w') \<and>
           trace w' = after_attempts (trace w) (Suc k) \<and> fs w' = fs w"
  using assms
proof (induction k arbitrary: w xs)
  case 0
  then obtain a rest where xs: "xs = a # rest" by (cases xs) auto
  from 0 show ?case
    by (simp add: xs retry_loop_Cons after_attempts_def)
next
  case (Suc k)
  then obtain a rest where xs: "xs = a # rest" by (cases xs) auto
  let ?w1 = "w\<lparr>trace := trace w @ attempt_events,
                printed := printed w @
                  (if a < m - 1
                   then [''Server error detected, retrying... ('' @ str_int (a + 1)
                          @ ''/'' @ str_int m @ '')'']
                   else [])\<rparr>"
  have click0: "raises env (trace w) (Click ''#order'') = None"
    using Suc.prems(3) by (metis after_attempts_0 le0)
  have seen0: "alert_seen env (trace w @ [Click ''#order'', Sleep 300]) ERROR_TIMEOUT"
    using Suc.prems(4) by (metis after_attempts_0 zero_less_Suc)
  have step: "retry_loop env m xs w = retry_loop env m rest ?w1"
    using Suc.prems(1) click0 seen0 by (simp add: xs retry_loop_Cons)
  have "\<exists>w'. retry_loop env m rest ?w1 = (Inr True, w') \<and>
           trace w' = after_attempts (trace ?w1) (Suc k) \<and> fs w' = fs ?w1"
  proof (rule Suc.IH)
    show "page_inst ?w1" using Suc.prems(1) by simp
    show "k < length rest" using Suc.prems(2) by (simp add: xs)
    show "\<forall>i\<le>k. raises env (after_attempts (trace ?w1) i) (Click ''#order'') = None"
      using Suc.prems(3) by (auto simp: after_attempts_Suc [symmetric])
    show "\<forall>i<k. alert_seen env (after_attempts (trace ?w1) i @ [Click ''#order'', Sleep 300])
                  ERROR_TIMEOUT"
      using Suc.prems(4) by (auto simp: after_attempts_Suc [symmetric])
    show "\<not> alert_seen env (after_attempts (trace ?w1) k @ [Click ''#order'', Sleep 300])
              ERROR_TIMEOUT"
      using Suc.prems(5) by (simp add: after_attempts_Suc [symmetric])
  qed
  then show ?case
    by (auto simp: step after_attempts_Suc [symmetric])
qed

lemma retry_loop_exhausts:
  assumes "page_inst w"
    and "\<forall>i<length xs. raises env (after_attempts (trace w) i) (Click ''#order'') = None"
    and "\<forall>i<length xs.
           alert_seen env (after_attempts (trace w) i @ [Click ''#order'', Sleep 300])
             ERROR_TIMEOUT"
  shows "\<exists>w'. retry_loop env m xs w =
             (Inl (Exception (''Order failed after '' @ str_int m @ '' retry attempts'')), w') \<and>
           trace w' = after_attempts (trace w) (length xs) \<and> fs w' = fs w"
  using assms
proof (induction xs arbitrary: w)
  case Nil
  then show ?case by (simp add: raise_def)
next
  case (Cons a rest)
  let ?w1 = "w\<lparr>trace := trace w @ attempt_events,
                printed := printed w @
                  (if a < m - 1
                   then [''Server error detected, retrying... ('' @ str_int (a + 1)
                          @ ''/'' @ str_int m @ '')'']
                   else [])\<rparr>"
  have click0: "raises env (trace w) (Click ''#order'') = None"
    using Cons.prems(2) by (metis after_attempts_0 length_greater_0_conv list.distinct(1))
  have seen0: "alert_seen env (trace w @ [Click ''#order'', Sleep 300]) ERROR_TIMEOUT"
    using Cons.prems(3) by (metis after_attempts_0 length_greater_0_conv list.distinct(1))
  have step: "retry_loop env m (a # rest) w = retry_loop env m rest ?w1"
    using Cons.prems(1) click0 seen0 by (simp add: retry_loop_Cons)
  have "\<exists>w'. retry_loop env m rest ?w1 =
             (Inl (Exception (''Order failed after '' @ str_int m @ '' retry attempts'')), w') \<and>
           trace w' = after_attempts (trace ?w1) (length rest) \<and> fs w' = fs ?w1"
  proof (rule Cons.IH)
    show "page_inst ?w1" using Cons.prems(1) by simp
    show "\<forall>i<length rest. raises env (after_attempts (trace ?w1) i) (Click ''#order'') = None"
      using Cons.prems(2) by (auto simp: after_attempts_Suc [symmetric])
    show "\<forall>i<length rest.
            alert_seen env (after_attempts (trace ?w1) i @ [Click ''#order'', Sleep 300])
              ERROR_TIMEOUT"
      using Cons.prems(3) by (auto simp: after_attempts_Suc [symmetric])
  qed
  then show ?case
    by (auto simp: step after_attempts_Suc [symmetric])
qed

lemma length_py_range: "length (py_range n) = nat n"
  by (simp add: py_range_def)

lemma count_attempts:
  "count_list (concat (replicate n attempt_events)) (Click ''#order'') = n"
  by (induction n) (simp_all add: attempt_events_def alert_check_def)

lemma submit_clicks_after:
  "trace w' = after_attempts (trace w) n \<Longrightarrow> submit_clicks w w' = n"
  by (simp add: submit_clicks_def issued_def after_attempts_def count_attempts)

lemma str_int_10: "str_int 10 = ''10''"
  by (simp add: str_int_def str_nat.simps)

text \<open>
  C1: for every \<open>k < MAX_RETRIES\<close>, when the page singleton exists, the first \<open>k + 1\<close>
  clicks on the order button return, the alert is seen after each of the first \<open>k\<close>
  clicks and is not seen after click \<open>k + 1\<close>, \<open>submit_order_with_retry\<close> returns
  \<open>True\<close>, has issued exactly \<open>k + 1\<close> attempts (click, sleep, alert check) and nothing
  after them, and so exactly \<open>k + 1\<close> clicks on the order button.
\<close>

theorem submit_succeeds_after_k_errors:
  assumes "page_inst w" and "int k < MAX_RETRIES"
    and "\<forall>i\<le>k. raises env (after_attempts (trace w) i) (Click ''#order'') = None"
    and "\<forall>i<k. alert_seen env (after_attempts (trace w) i @ [Click ''#order'', Sleep 300])
                  ERROR_TIMEOUT"
    and "\<not> alert_seen env (after_attempts (trace w) k @ [Click ''#order'', Sleep 300])
              ERROR_TIMEOUT"
  shows "\<exists>w'. submit_order_with_retry env MAX_RETRIES w = (Inr True, w') \<and>
           trace w' = after_attempts (trace w) (k + 1) \<and>
           submit_clicks w w' = k + 1"
proof -
  have "k < length (py_range MAX_RETRIES)"
    using assms(2) by (simp add: length_py_range)
  from retry_loop_succeeds [OF assms(1) this assms(3-5)]
  obtain w' where "retry_loop env MAX_RETRIES (py_range MAX_RETRIES) w = (Inr True, w')"
    and "trace w' = after_attempts (trace w) (Suc k)"
    by blast
  then show ?thesis
    using assms(1) by (simp add: submit_order_with_retry_def bnd_def submit_clicks_after)
qed

theorem submit_succeeds_after_k_errors_witness:
  "\<exists>w'. submit_order_with_retry (site never_raises (\<lambda>h. False) (\<lambda>h. length h < 7) [])
           MAX_RETRIES ready_world = (Inr True, w') \<and>
         submit_clicks ready_world w' = 3"
proof -
  let ?env = "site never_raises (\<lambda>h. False) (\<lambda>h. length h < 7) []"
  have len: "length (after_attempts h i) = length h + 3 * i" for h i
    by (induction i arbitrary: h) (simp_all add: after_attempts_Suc, simp add: attempt_events_def)
  have seen: "alert_seen ?env h ERROR_TIMEOUT \<longleftrightarrow> length h < 7" for h
    by (simp add: alert_seen_def alert_check_def site_def never_raises_def)
  have 1: "page_inst ready_world" by (simp add: ready_world_def)
  have 2: "int 2 < MAX_RETRIES" by (simp add: MAX_RETRIES_def)
  have 3: "\<forall>i\<le>2. raises ?env (after_attempts (trace ready_world) i) (Click ''#order'') = None"
    by (simp add: site_def never_raises_def)
  have 4: "\<forall>i<2. alert_seen ?env
             (after_attempts (trace ready_world) i @ [Click ''#order'', Sleep 300]) ERROR_TIMEOUT"
    by (auto simp: seen len ready_world_def)
  have 5: "\<not> alert_seen ?env
             (after_attempts (trace ready_world) 2 @ [Click ''#order'', Sleep 300]) ERROR_TIMEOUT"
    by (simp add: seen len ready_world_def)
  from submit_succeeds_after_k_errors [OF 1 2 3 4 5] show ?thesis
    by auto
qed

text \<open>
  C2: when the page singleton exists, the clicks on the order button return and the
  alert is seen after every one of them, \<open>submit_order_with_retry\<close> issues exactly
  \<open>MAX_RETRIES = 10\<close> attempts, hence exactly ten clicks on the order button and no
  eleventh, and raises \<open>Exception\<close> with the message
  \<open>Order failed after 10 retry attempts\<close>.
\<close>

theorem submit_raises_after_max_retries:
  assumes "page_inst w"
    and "\<forall>i<nat MAX_RETRIES. raises env (after_attempts (trace w) i) (Click ''#order'') = None"
    and "\<forall>i<nat MAX_RETRIES.
           alert_seen env (after_attempts (trace w) i @ [Click ''#order'', Sleep 300])
             ERROR_TIMEOUT"
  shows "\<exists>w'. submit_order_with_retry env MAX_RETRIES w =
             (Inl (Exception ''Order failed after 10 retry attempts''), w') \<and>
           trace w' = after_attempts (trace w) 10 \<and>
           submit_clicks w w' = 10"
proof -
  have len: "length (py_range MAX_RETRIES) = nat MAX_RETRIES"
    by (simp add: length_py_range)
  from retry_loop_exhausts [of w "py_range MAX_RETRIES" env MAX_RETRIES] assms
  obtain w' where "retry_loop env MAX_RETRIES (py_range MAX_RETRIES) w =
      (Inl (Exception (''Order failed after '' @ str_int MAX_RETRIES @ '' retry attempts'')), w')"
    and "trace w' = after_attempts (trace w) (nat MAX_RETRIES)"
    unfolding len by blast
  then show ?thesis
    using assms(1)
    by (simp add: submit_order_with_retry_def bnd_def submit_clicks_after MAX_RETRIES_def
        str_int_10)
qed

theorem submit_raises_after_max_retries_witness:
  "\<exists>w'. submit_order_with_retry (site never_raises (\<lambda>h. False) (\<lambda>h. True) [])
           MAX_RETRIES ready_world =
           (Inl (Exception ''Order failed after 10 retry attempts''), w') \<and>
         submit_clicks ready_world w' = 10"
proof -
  let ?env = "site never_raises (\<lambda>h. False) (\<lambda>h. True) []"
  have 1: "page_inst ready_world" by (simp add: ready_world_def)
  have 2: "\<forall>i<nat MAX_RETRIES.
             raises ?env (after_attempts (trace ready_world) i) (Click ''#order'') = None"
    by (simp add: site_def never_raises_def)
  have 3: "\<forall>i<nat MAX_RETRIES. alert_seen ?env
             (after_attempts (trace ready_world) i @ [Click ''#order'', Sleep 300]) ERROR_TIMEOUT"
    by (simp add: alert_seen_def alert_check_def site_def never_raises_def)
  from submit_raises_after_max_retries [OF 1 2 3] show ?thesis
    by auto
qed

subsection \<open>Paths, downloads and one order\<close>

lemma split_on_absent: "c \<notin> set s \<Longrightarrow> split_on c s = [s]"
  by (induction s) auto

lemma parse_parts_single:
  "CHR ''/'' \<notin> set s \<Longrightarrow> s \<noteq> [] \<Longrightarrow> s \<noteq> ''.'' \<Longrightarrow> parse_parts s = [s]"
  by (simp add: parse_parts_def split_on_absent)

lemma SCREENSHOTS_DIR_parts: "SCREENSHOTS_DIR = [''output'', ''orders_screenshots'']"
  by (simp add: SCREENSHOTS_DIR_def Path_def parse_parts_def)

lemma RECEIPTS_DIR_parts: "RECEIPTS_DIR = [''output'', ''receipt_pdf'']"
  by (simp add: RECEIPTS_DIR_def Path_def parse_parts_def)


lemma screenshot_path:
  "CHR ''/'' \<notin> set order_no \<Longrightarrow>
   str_path (truediv SCREENSHOTS_DIR (''screenshot_'' @ order_no @ ''.png'')) =
     screenshot_file order_no"
  by (simp add: truediv_def parse_parts_single SCREENSHOTS_DIR_parts str_path_def
      screenshot_file_def)

lemma receipt_path:
  "CHR ''/'' \<notin> set order_no \<Longrightarrow>
   str_path (truediv RECEIPTS_DIR (''receipt_'' @ order_no @ ''.pdf'')) =
     receipt_file order_no"
  by (simp add: truediv_def parse_parts_single RECEIPTS_DIR_parts str_path_def
      receipt_file_def)

lemma url_file_name_orders:
  "url_file_name ''https://robotsparebinindustries.com/orders.csv'' = ''orders.csv''"
  by (simp add: url_file_name_def)

lemma call_eq:
  "call env ev w =
     ((case raises env (trace w) ev of Some e \<Rightarrow> Inl e | None \<Rightarrow> Inr ()),
      w\<lparr>trace := trace w @ [ev]\<rparr>)"
  by (simp add: call_def call_with_eq)

lemma call_Inr_iff:
  "call env ev w = (Inr u, w') \<longleftrightarrow>
     raises env (trace w) ev = None \<and> w' = w\<lparr>trace := trace w @ [ev]\<rparr>"
  by (auto simp: call_eq split: option.splits)

lemma call_with_Inr_iff:
  "call_with val env ev w = (Inr v, w') \<longleftrightarrow>
     raises env (trace w) ev = None \<and> v = val (trace w) ev \<and>
     w' = w\<lparr>trace := trace w @ [ev]\<rparr>"
  by (auto simp: call_with_eq split: option.splits)

lemma subscript_Inr_iff:
  "subscript order key w = (Inr v, w') \<longleftrightarrow> order key = Some v \<and> w' = w"
  by (auto simp: subscript_def raise_def ret_def split: option.splits)

lemma download_csv_eq:
  "download_csv env w =
     (case raises env (trace w) (Download ''https://robotsparebinindustries.com/orders.csv'' True) of
        Some e \<Rightarrow>
          (Inl e, w\<lparr>trace := trace w @
             [Download ''https://robotsparebinindustries.com/orders.csv'' True]\<rparr>)
      | None \<Rightarrow>
          (Inr (), w\<lparr>trace := trace w @
             [Download ''https://robotsparebinindustries.com/orders.csv'' True],
             fs := (fs w)(''orders.csv'' \<mapsto>
               Body (returns_str env (trace w)
                 (Download ''https://robotsparebinindustries.com/orders.csv'' True)))\<rparr>))"
  by (simp add: download_csv_def http_download_def bnd_def call_with_eq url_file_name_orders
      split: option.splits)

text \<open>
  C7: when \<open>download_csv\<close> runs twice and returns both times, the file system after the
  second run is the file system before the first with \<open>orders.csv\<close> holding the second
  response: the copy of the first run is replaced, no other path is added or changed,
  and when the server sends the same body twice the file system is that of a single
  download. The effect of \<open>HTTP.download\<close> with \<open>overwrite=True\<close> is the modelled library
  contract.
\<close>

theorem download_csv_twice:
  assumes "download_csv env w = (Inr (), w1)" and "download_csv env w1 = (Inr (), w2)"
  shows "fs w1 = (fs w)(ORDERS_CSV_FILE \<mapsto> Body (returns_str env (trace w) csv_download)) \<and>
         fs w2 = (fs w)(ORDERS_CSV_FILE \<mapsto> Body (returns_str env (trace w1) csv_download)) \<and>
         dom (fs w2) = dom (fs w1) \<and>
         (returns_str env (trace w1) csv_download = returns_str env (trace w) csv_download
            \<longrightarrow> fs w2 = fs w1)"
  using assms
  by (auto simp: download_csv_eq ORDERS_CSV_FILE_def csv_download_def split: option.splits)

theorem download_csv_twice_witness:
  "fs (snd (download_csv (site never_raises (\<lambda>h. False) (\<lambda>h. False) [])
          (snd (download_csv (site never_raises (\<lambda>h. False) (\<lambda>h. False) [])
             (ready_world\<lparr>fs := [''orders.csv'' \<mapsto> Body ''stale'']\<rparr>))))) =
     [''orders.csv'' \<mapsto> Body ''bytes''] \<and>
   fs (snd (download_csv (site never_raises (\<lambda>h. False) (\<lambda>h. False) [])
          (ready_world\<lparr>fs := [''orders.csv'' \<mapsto> Body ''stale'']\<rparr>))) =
     [''orders.csv'' \<mapsto> Body ''bytes'']"
  using download_csv_twice
    [of "site never_raises (\<lambda>h. False) (\<lambda>h. False) []"
        "ready_world\<lparr>fs := [''orders.csv'' \<mapsto> Body ''stale'']\<rparr>"
        "snd (download_csv (site never_raises (\<lambda>h. False) (\<lambda>h. False) [])
           (ready_world\<lparr>fs := [''orders.csv'' \<mapsto> Body ''stale'']\<rparr>))"
        "snd (download_csv (site never_raises (\<lambda>h. False) (\<lambda>h. False) [])
           (snd (download_csv (site never_raises (\<lambda>h. False) (\<lambda>h. False) [])
              (ready_world\<lparr>fs := [''orders.csv'' \<mapsto> Body ''stale'']\<rparr>))))"]
  by (simp add: download_csv_eq site_def never_raises_def ready_world_def ORDERS_CSV_FILE_def
      csv_download_def)

lemma retry_loop_click_raises:
  assumes "page_inst w" and "raises env (trace w) (Click ''#order'') = Some e"
  shows "retry_loop env m (a # rest) w = (Inl e, w\<lparr>trace := trace w @ [Click ''#order'']\<rparr>)"
  using assms by (simp add: retry_loop.simps(2) bnd_def call_eq)

lemma retry_loop_returns:
  assumes "page_inst w" and "retry_loop env m xs w = (Inr b, w')"
  shows "b \<and> (\<exists>n. 0 < n \<and> n \<le> length xs \<and> trace w' = after_attempts (trace w) n) \<and>
         fs w' = fs w \<and> page_inst w' \<and> pdf_inst w' = pdf_inst w \<and>
         archive_inst w' = archive_inst w"
  using assms
proof (induction xs arbitrary: w)
  case Nil
  then show ?case by (simp add: raise_def)
next
  case (Cons a rest)
  show ?case
  proof (cases "raises env (trace w) (Click ''#order'')")
    case (Some e)
    with Cons.prems show ?thesis by (simp add: retry_loop_click_raises)
  next
    case None
    note step = retry_loop_Cons [OF Cons.prems(1) None, of m a rest]
    show ?thesis
    proof (cases "alert_seen env (trace w @ [Click ''#order'', Sleep 300]) ERROR_TIMEOUT")
      case False
      with Cons.prems(2) step have "b" and "trace w' = trace w @ attempt_events"
        and "fs w' = fs w" and "page_inst w'" and "pdf_inst w' = pdf_inst w"
        and "archive_inst w' = archive_inst w"
        using Cons.prems(1) by auto
      moreover have "trace w @ attempt_events = after_attempts (trace w) 1"
        by (simp add: after_attempts_def)
      ultimately show ?thesis by (metis One_nat_def Suc_leI length_Cons zero_less_Suc zero_less_one)
    next
      case True
      let ?w1 = "w\<lparr>trace := trace w @ attempt_events,
                printed := printed w @
                  (if a < m - 1
                   then [''Server error detected, retrying... ('' @ str_int (a + 1)
                          @ ''/'' @ str_int m @ '')'']
                   else [])\<rparr>"
      from True Cons.prems(2) step have run: "retry_loop env m rest ?w1 = (Inr b, w')"
        by simp
      have "page_inst ?w1" using Cons.prems(1) by simp
      from Cons.IH [OF this run]
      obtain n where "b" and n: "0 < n" "n \<le> length rest"
        "trace w' = after_attempts (trace ?w1) n"
        and rest: "fs w' = fs w" "page_inst w'" "pdf_inst w' = pdf_inst w"
        "archive_inst w' = archive_inst w"
        by auto
      have "trace w' = after_attempts (trace w) (Suc n)"
        using n(3) by (simp add: after_attempts_Suc)
      with \<open>b\<close> n rest show ?thesis
        by (metis Suc_le_mono length_Cons zero_less_Suc)
    qed
  qed
qed

lemma submit_order_with_retry_returns:
  assumes "page_inst w" and "submit_order_with_retry env MAX_RETRIES w = (Inr b, w')"
  shows "(\<exists>n. 0 < n \<and> n \<le> 10 \<and> trace w' = after_attempts (trace w) n) \<and>
         fs w' = fs w \<and> page_inst w' \<and> pdf_inst w' = pdf_inst w \<and>
         archive_inst w' = archive_inst w"
proof -
  from assms have "retry_loop env MAX_RETRIES (py_range MAX_RETRIES) w = (Inr b, w')"
    by (simp add: submit_order_with_retry_def bnd_def)
  from retry_loop_returns [OF assms(1) this] show ?thesis
    by (simp add: length_py_range MAX_RETRIES_def)
qed

lemma fill_and_submit_orders_split:
  "fill_and_submit_orders env order =
     bnd (fill_and_preview env order) (\<lambda>_.
     bnd (submit_order_with_retry env MAX_RETRIES) (\<lambda>_.
     receipt_and_next env order))"
  by (simp add: fill_and_submit_orders_def fill_and_preview_def receipt_and_next_def bnd_assoc)

lemma fill_and_preview_returns:
  assumes "page_inst w" and "fill_and_preview env order w = (Inr u, w')"
  shows "\<exists>head body legs address order_no image.
           order ''Head'' = Some head \<and> order ''Body'' = Some body \<and>
           order ''Legs'' = Some legs \<and> order ''Address'' = Some address \<and>
           order ''Order number'' = Some order_no \<and>
           w' = w\<lparr>trace := trace w @ form_events head body legs address @
                    [Click ''//button[text()='Preview']'',
                     Screenshot ''#robot-preview-image'' (screenshot_path_of order_no)],
                  fs := (fs w)(screenshot_path_of order_no \<mapsto> Png image)\<rparr>"
  using assms
  by (auto simp: fill_and_preview_def bnd_eq_Inr_iff call_Inr_iff subscript_Inr_iff
      call_with_Inr_iff screenshot_robot_def element_screenshot_def form_events_def
      screenshot_path_of_def)

lemma get_pdf_eq: "get_pdf w = (Inr (), w\<lparr>pdf_inst := True\<rparr>)"
  by (cases w) (simp add: get_pdf_def)


lemma receipt_and_next_returns:
  assumes "page_inst w" and "receipt_and_next env order w = (Inr u, w')"
  shows "\<exists>order_no tail.
           order ''Order number'' = Some order_no \<and>
           (tail = [] \<or> tail = [Click ''//button[text()='OK']'']) \<and>
           trace w' = trace w @
                    [InnerHtml ''#receipt'',
                     HtmlToPdf (full_html (returns_str env (trace w) (InnerHtml ''#receipt''))
                                  (screenshot_file order_no))
                       (receipt_path_of order_no),
                     Click ''#order-another'', modal_check MODAL_TIMEOUT] @ tail \<and>
           fs w' = (fs w)(receipt_path_of order_no \<mapsto>
                          Pdf (full_html (returns_str env (trace w) (InnerHtml ''#receipt''))
                                 (screenshot_file order_no))) \<and>
           page_inst w'"
  using assms
  by (auto simp: receipt_and_next_def bnd_eq_Inr_iff call_Inr_iff subscript_Inr_iff
      call_with_Inr_iff store_receipt_as_pdf_def html_to_pdf_def inner_html_def get_pdf_eq
      close_annoying_modal_eq receipt_path_of_def screenshot_file_def)

lemma fill_and_submit_orders_returns:
  assumes "page_inst w" and "fill_and_submit_orders env order w = (Inr u, w')"
  shows "\<exists>head body legs address order_no image receipt_html n tail.
           order ''Head'' = Some head \<and> order ''Body'' = Some body \<and>
           order ''Legs'' = Some legs \<and> order ''Address'' = Some address \<and>
           order ''Order number'' = Some order_no \<and>
           0 < n \<and> n \<le> 10 \<and>
           (tail = [] \<or> tail = [Click ''//button[text()='OK']'']) \<and>
           trace w' = trace w @ form_events head body legs address @
                    [Click ''//button[text()='Preview']'',
                     Screenshot ''#robot-preview-image'' (screenshot_path_of order_no)] @
                    concat (replicate n attempt_events) @
                    [InnerHtml ''#receipt'',
                     HtmlToPdf (full_html receipt_html (screenshot_file order_no))
                       (receipt_path_of order_no),
                     Click ''#order-another'', modal_check MODAL_TIMEOUT] @ tail \<and>
           fs w' = (fs w)(screenshot_path_of order_no \<mapsto> Png image,
                          receipt_path_of order_no \<mapsto>
                            Pdf (full_html receipt_html (screenshot_file order_no))) \<and>
           page_inst w'"
proof -
  from assms(2) obtain w1 b w2
    where 1: "fill_and_preview env order w = (Inr (), w1)"
      and 2: "submit_order_with_retry env MAX_RETRIES w1 = (Inr b, w2)"
      and 3: "receipt_and_next env order w2 = (Inr u, w')"
    by (auto simp: fill_and_submit_orders_split bnd_eq_Inr_iff)
  from fill_and_preview_returns [OF assms(1) 1]
  obtain head body legs address order_no image
    where row: "order ''Head'' = Some head" "order ''Body'' = Some body"
      "order ''Legs'' = Some legs" "order ''Address'' = Some address"
      "order ''Order number'' = Some order_no"
      and w1: "w1 = w\<lparr>trace := trace w @ form_events head body legs address @
                    [Click ''//button[text()='Preview']'',
                     Screenshot ''#robot-preview-image'' (screenshot_path_of order_no)],
                  fs := (fs w)(screenshot_path_of order_no \<mapsto> Png image)\<rparr>"
    by blast
  have p1: "page_inst w1" using assms(1) by (simp add: w1)
  from submit_order_with_retry_returns [OF p1 2]
  obtain n where n: "0 < n" "n \<le> 10" "trace w2 = after_attempts (trace w1) n"
    and w2: "fs w2 = fs w1" "page_inst w2"
    by blast
  define receipt_html where "receipt_html = returns_str env (trace w2) (InnerHtml ''#receipt'')"
  from receipt_and_next_returns [OF w2(2) 3]
  obtain order_no' tail
    where no': "order ''Order number'' = Some order_no'"
      and tail: "tail = [] \<or> tail = [Click ''//button[text()='OK']'']"
      and w': "trace w' = trace w2 @
                    [InnerHtml ''#receipt'',
                     HtmlToPdf (full_html receipt_html (screenshot_file order_no'))
                       (receipt_path_of order_no'),
                     Click ''#order-another'', modal_check MODAL_TIMEOUT] @ tail"
        "fs w' = (fs w2)(receipt_path_of order_no' \<mapsto>
                          Pdf (full_html receipt_html (screenshot_file order_no')))"
        "page_inst w'"
    unfolding receipt_html_def by blast
  have same: "order_no' = order_no" using no' row(5) by simp
  have tr: "trace w' = trace w @ form_events head body legs address @
                    [Click ''//button[text()='Preview']'',
                     Screenshot ''#robot-preview-image'' (screenshot_path_of order_no)] @
                    concat (replicate n attempt_events) @
                    [InnerHtml ''#receipt'',
                     HtmlToPdf (full_html receipt_html (screenshot_file order_no))
                       (receipt_path_of order_no),
                     Click ''#order-another'', modal_check MODAL_TIMEOUT] @ tail"
    by (simp add: w'(1) n(3) w1 same after_attempts_def)
  have files: "fs w' = (fs w)(screenshot_path_of order_no \<mapsto> Png image,
                          receipt_path_of order_no \<mapsto>
                            Pdf (full_html receipt_html (screenshot_file order_no)))"
    by (simp add: w'(2) w2(1) w1 same)
  from row n(1,2) tail tr files w'(3) show ?thesis by blast
qed

lemma issued_append: "trace w' = trace w @ es \<Longrightarrow> issued w w' = es"
  by (simp add: issued_def)

text \<open>
  C8: when the page singleton exists and \<open>fill_and_submit_orders\<close> returns for a row, the
  calls it has issued are, in this order: select the head, check the body radio, fill the
  legs, fill the address (each with the row's own cell), click preview, take the
  screenshot, between one and ten submit attempts (click, sleep, alert check), read the
  receipt markup, render the PDF, click the order-another control, and check for the
  modal, followed by the click that dismisses the modal when one was seen. Nothing
  else is issued and no step is missing.
\<close>

theorem fill_and_submit_orders_step_order:
  assumes "page_inst w" and "fill_and_submit_orders env order w = (Inr (), w')"
  shows "\<exists>head body legs address order_no document n tail.
           order ''Head'' = Some head \<and> order ''Body'' = Some body \<and>
           order ''Legs'' = Some legs \<and> order ''Address'' = Some address \<and>
           order ''Order number'' = Some order_no \<and>
           0 < n \<and> n \<le> 10 \<and>
           (tail = [] \<or> tail = [Click ''//button[text()='OK']'']) \<and>
           issued w w' =
             [SelectOption ''#head'' head,
              CheckInput (''input[type='radio'][value='' @ [CHR 0x27] @ body @ [CHR 0x27] @ '']''),
              FillPlaceholder ''Enter the part number for the legs'' legs,
              FillPlaceholder ''Shipping address'' address,
              Click ''//button[text()='Preview']'',
              Screenshot ''#robot-preview-image''
                (str_path (truediv SCREENSHOTS_DIR (''screenshot_'' @ order_no @ ''.png'')))] @
             concat (replicate n attempt_events) @
             [InnerHtml ''#receipt'',
              HtmlToPdf document
                (str_path (truediv RECEIPTS_DIR (''receipt_'' @ order_no @ ''.pdf''))),
              Click ''#order-another'',
              modal_check MODAL_TIMEOUT] @ tail"
proof -
  from fill_and_submit_orders_returns [OF assms]
  obtain head body legs address order_no image receipt_html n tail
    where row: "order ''Head'' = Some head" "order ''Body'' = Some body"
      "order ''Legs'' = Some legs" "order ''Address'' = Some address"
      "order ''Order number'' = Some order_no"
      and n: "0 < n" "n \<le> 10"
      and tail: "tail = [] \<or> tail = [Click ''//button[text()='OK']'']"
      and tr: "trace w' = trace w @ form_events head body legs address @
                    [Click ''//button[text()='Preview']'',
                     Screenshot ''#robot-preview-image'' (screenshot_path_of order_no)] @
                    concat (replicate n attempt_events) @
                    [InnerHtml ''#receipt'',
                     HtmlToPdf (full_html receipt_html (screenshot_file order_no))
                       (receipt_path_of order_no),
                     Click ''#order-another'', modal_check MODAL_TIMEOUT] @ tail"
    by blast
  have "issued w w' =
             [SelectOption ''#head'' head,
              CheckInput (''input[type='radio'][value='' @ [CHR 0x27] @ body @ [CHR 0x27] @ '']''),
              FillPlaceholder ''Enter the part number for the legs'' legs,
              FillPlaceholder ''Shipping address'' address,
              Click ''//button[text()='Preview']'',
              Screenshot ''#robot-preview-image''
                (str_path (truediv SCREENSHOTS_DIR (''screenshot_'' @ order_no @ ''.png'')))] @
             concat (replicate n attempt_events) @
             [InnerHtml ''#receipt'',
              HtmlToPdf (full_html receipt_html (screenshot_file order_no))
                (str_path (truediv RECEIPTS_DIR (''receipt_'' @ order_no @ ''.pdf''))),
              Click ''#order-another'',
              modal_check MODAL_TIMEOUT] @ tail"
    by (rule issued_append)
      (simp add: tr form_events_def screenshot_path_of_def receipt_path_of_def)
  with row n tail show ?thesis by blast
qed

lemma collapse_run: "fst (m w) = Inr a \<Longrightarrow> m w = (Inr a, snd (m w))"
  by (metis prod.collapse)

lemma py_range_MAX_RETRIES: "py_range MAX_RETRIES = [0, 1, 2, 3, 4, 5, 6, 7, 8, 9]"
  unfolding py_range_def MAX_RETRIES_def by (simp add: upto.simps)

lemma order_1_run:
  "fst (fill_and_submit_orders (site never_raises (\<lambda>h. False) (\<lambda>h. False) []) order_1
     ready_world) = Inr ()"
  by (simp add: fill_and_submit_orders_def bnd_def subscript_def ret_def call_eq
      screenshot_robot_def element_screenshot_def call_with_eq submit_order_with_retry_def
      py_range_MAX_RETRIES retry_loop_Cons alert_seen_def alert_check_def
      store_receipt_as_pdf_def get_pdf_eq inner_html_def html_to_pdf_def
      close_annoying_modal_eq
      order_1_def site_def never_raises_def ready_world_def ERROR_TIMEOUT_def)

lemma filter_writes_attempts: "filter writes_file (concat (replicate n attempt_events)) = []"
  by (induction n) (simp_all add: attempt_events_def alert_check_def writes_file_def)

theorem fill_and_submit_orders_step_order_witness:
  "\<exists>document.
     issued ready_world
       (snd (fill_and_submit_orders (site never_raises (\<lambda>h. False) (\<lambda>h. False) []) order_1
          ready_world)) =
       [SelectOption ''#head'' ''1'',
        CheckInput ''input[type='radio'][value='2']'',
        FillPlaceholder ''Enter the part number for the legs'' ''3'',
        FillPlaceholder ''Shipping address'' ''Address 123'',
        Click ''//button[text()='Preview']'',
        Screenshot ''#robot-preview-image'' ''output/orders_screenshots/screenshot_1.png'',
        Click ''#order'', Sleep 300, alert_check 2000,
        InnerHtml ''#receipt'',
        HtmlToPdf document ''output/receipt_pdf/receipt_1.pdf'',
        Click ''#order-another'',
        modal_check 1000]"
proof -
  let ?env = "site never_raises (\<lambda>h. False) (\<lambda>h. False) []"
  let ?w' = "snd (fill_and_submit_orders ?env order_1 ready_world)"
  have ready: "page_inst ready_world" by (simp add: ready_world_def)
  have run: "fill_and_submit_orders ?env order_1 ready_world = (Inr (), ?w')"
    by (rule collapse_run) (rule order_1_run)
  have tr: "trace ?w' = trace ready_world @
       [SelectOption ''#head'' ''1'',
        CheckInput ''input[type='radio'][value='2']'',
        FillPlaceholder ''Enter the part number for the legs'' ''3'',
        FillPlaceholder ''Shipping address'' ''Address 123'',
        Click ''//button[text()='Preview']'',
        Screenshot ''#robot-preview-image'' ''output/orders_screenshots/screenshot_1.png'',
        Click ''#order'', Sleep 300, alert_check 2000,
        InnerHtml ''#receipt'',
        HtmlToPdf (full_html ''bytes'' ''output/orders_screenshots/screenshot_1.png'')
          ''output/receipt_pdf/receipt_1.pdf'',
        Click ''#order-another'',
        modal_check 1000]"
    by (simp add: fill_and_submit_orders_def bnd_def subscript_def ret_def call_eq
      screenshot_robot_def element_screenshot_def call_with_eq submit_order_with_retry_def
      py_range_MAX_RETRIES retry_loop_Cons alert_seen_def alert_check_def
      store_receipt_as_pdf_def get_pdf_eq inner_html_def html_to_pdf_def
      close_annoying_modal_eq modal_seen_def modal_check_def attempt_events_def
      order_1_def site_def never_raises_def ready_world_def ERROR_TIMEOUT_def MODAL_TIMEOUT_def
      truediv_def parse_parts_def SCREENSHOTS_DIR_parts RECEIPTS_DIR_parts str_path_def)
  from fill_and_submit_orders_step_order [OF ready run] tr show ?thesis
    by (auto simp: issued_def)
qed

lemma full_html_embeds:
  "\<exists>before after. full_html receipt_html path =
      before @ ''<img src='' @ [CHR 0x22] @ path @ [CHR 0x22] @ after"
proof -
  have "full_html receipt_html path =
     ([CHR 0x0A] @
     ''    <!DOCTYPE html>'' @ [CHR 0x0A] @
     ''        <html>'' @ [CHR 0x0A] @
     ''        <head>'' @ [CHR 0x0A] @
     ''            <meta charset='' @ [CHR 0x22] @ ''UTF-8'' @ [CHR 0x22] @ ''>'' @ [CHR 0x0A] @
     ''        </head>'' @ [CHR 0x0A] @
     ''        <body>'' @ [CHR 0x0A] @
     ''            <div>'' @ [CHR 0x0A] @
     ''                '' @ receipt_html @ [CHR 0x0A] @
     ''            </div>'' @ [CHR 0x0A] @
     ''            <div style='' @ [CHR 0x22] @
       '' margin:100px 400px; display:flex; justify-content:center; max-width:100%; width:200px; height:auto;''
       @ [CHR 0x22, CHR 0x22] @ ''>'' @ [CHR 0x0A] @
     ''                '') @ ''<img src='' @ [CHR 0x22] @ path @ [CHR 0x22] @
       ('' alt='' @ [CHR 0x22] @ ''Robot Preview'' @ [CHR 0x22] @ ''>'' @ [CHR 0x0A] @
     ''            </div>'' @ [CHR 0x0A] @
     ''        </body>'' @ [CHR 0x0A] @
     ''        </html>'' @ [CHR 0x0A] @
     ''    '')"
    by (simp add: full_html_def)
  then show ?thesis by blast
qed

text \<open>
  C4: when the page singleton exists, the row's order number contains no path separator
  and \<open>fill_and_submit_orders\<close> returns for the row, the file system has changed at
  exactly two paths: \<open>output/orders_screenshots/screenshot_<OrderNumber>.png\<close> holds the
  screenshot and \<open>output/receipt_pdf/receipt_<OrderNumber>.pdf\<close> holds the PDF of the
  receipt document. The calls that write a file are exactly one screenshot and one
  \<open>html_to_pdf\<close>, at those paths, and the receipt document contains an \<open>img\<close> element
  whose \<open>src\<close> is the path of that same screenshot.
\<close>

theorem one_screenshot_and_one_receipt_per_row:
  assumes "page_inst w"
    and "order ''Order number'' = Some order_no"
    and "CHR ''/'' \<notin> set order_no"
    and "fill_and_submit_orders env order w = (Inr (), w')"
  shows "\<exists>image receipt_html before after.
           fs w' = (fs w)(screenshot_file order_no \<mapsto> Png image,
                          receipt_file order_no \<mapsto>
                            Pdf (full_html receipt_html (screenshot_file order_no))) \<and>
           filter writes_file (issued w w') =
             [Screenshot ''#robot-preview-image'' (screenshot_file order_no),
              HtmlToPdf (full_html receipt_html (screenshot_file order_no))
                (receipt_file order_no)] \<and>
           full_html receipt_html (screenshot_file order_no) =
             before @ ''<img src='' @ [CHR 0x22] @ screenshot_file order_no @ [CHR 0x22] @ after"
proof -
  from fill_and_submit_orders_returns [OF assms(1,4)]
  obtain head body legs address order_no' image receipt_html n tail
    where no: "order ''Order number'' = Some order_no'"
      and tail: "tail = [] \<or> tail = [Click ''//button[text()='OK']'']"
      and tr: "trace w' = trace w @ form_events head body legs address @
                    [Click ''//button[text()='Preview']'',
                     Screenshot ''#robot-preview-image'' (screenshot_path_of order_no')] @
                    concat (replicate n attempt_events) @
                    [InnerHtml ''#receipt'',
                     HtmlToPdf (full_html receipt_html (screenshot_file order_no'))
                       (receipt_path_of order_no'),
                     Click ''#order-another'', modal_check MODAL_TIMEOUT] @ tail"
      and files: "fs w' = (fs w)(screenshot_path_of order_no' \<mapsto> Png image,
                          receipt_path_of order_no' \<mapsto>
                            Pdf (full_html receipt_html (screenshot_file order_no')))"
    by blast
  have same: "order_no' = order_no" using no assms(2) by simp
  have shot: "screenshot_path_of order_no = screenshot_file order_no"
    unfolding screenshot_path_of_def by (rule screenshot_path [OF assms(3)])
  have pdf: "receipt_path_of order_no = receipt_file order_no"
    unfolding receipt_path_of_def by (rule receipt_path [OF assms(3)])
  have 1: "fs w' = (fs w)(screenshot_file order_no \<mapsto> Png image,
                          receipt_file order_no \<mapsto>
                            Pdf (full_html receipt_html (screenshot_file order_no)))"
    using files by (simp add: same shot pdf)
  have "issued w w' = form_events head body legs address @
                    [Click ''//button[text()='Preview']'',
                     Screenshot ''#robot-preview-image'' (screenshot_file order_no)] @
                    concat (replicate n attempt_events) @
                    [InnerHtml ''#receipt'',
                     HtmlToPdf (full_html receipt_html (screenshot_file order_no))
                       (receipt_file order_no),
                     Click ''#order-another'', modal_check MODAL_TIMEOUT] @ tail"
    by (rule issued_append) (simp add: tr same shot pdf)
  then have 2: "filter writes_file (issued w w') =
             [Screenshot ''#robot-preview-image'' (screenshot_file order_no),
              HtmlToPdf (full_html receipt_html (screenshot_file order_no))
                (receipt_file order_no)]"
    using tail
    by (auto simp add: filter_writes_attempts form_events_def modal_check_def)
      (simp_all add: writes_file_def)
  from full_html_embeds [of receipt_html "screenshot_file order_no"]
  obtain before after where 3: "full_html receipt_html (screenshot_file order_no) =
             before @ ''<img src='' @ [CHR 0x22] @ screenshot_file order_no @ [CHR 0x22] @ after"
    by blast
  from 1 2 3 show ?thesis by blast
qed

theorem one_screenshot_and_one_receipt_per_row_witness:
  "\<exists>image receipt_html.
     fs (snd (fill_and_submit_orders (site never_raises (\<lambda>h. False) (\<lambda>h. False) []) order_1
          ready_world)) =
       (fs ready_world)(screenshot_file ''1'' \<mapsto> Png image,
          receipt_file ''1'' \<mapsto> Pdf (full_html receipt_html (screenshot_file ''1''))) \<and>
     filter writes_file (issued ready_world
        (snd (fill_and_submit_orders (site never_raises (\<lambda>h. False) (\<lambda>h. False) []) order_1
          ready_world))) =
       [Screenshot ''#robot-preview-image'' (screenshot_file ''1''),
        HtmlToPdf (full_html receipt_html (screenshot_file ''1'')) (receipt_file ''1'')]"
proof -
  let ?env = "site never_raises (\<lambda>h. False) (\<lambda>h. False) []"
  let ?w' = "snd (fill_and_submit_orders ?env order_1 ready_world)"
  have ready: "page_inst ready_world" by (simp add: ready_world_def)
  have no: "order_1 ''Order number'' = Some ''1''" by (simp add: order_1_def)
  have slash: "CHR ''/'' \<notin> set ''1''" by simp
  have run: "fill_and_submit_orders ?env order_1 ready_world = (Inr (), ?w')"
    by (rule collapse_run) (rule order_1_run)
  from one_screenshot_and_one_receipt_per_row [OF ready no slash run] show ?thesis
    by blast
qed

lemma order_slash_world:
  "fill_and_submit_orders (site never_raises (\<lambda>h. False) (\<lambda>h. False) []) order_slash
     ready_world =
   (Inr (),
    \<lparr>trace = [BrowserPage,
        SelectOption ''#head'' ''1'',
        CheckInput ''input[type='radio'][value='2']'',
        FillPlaceholder ''Enter the part number for the legs'' ''3'',
        FillPlaceholder ''Shipping address'' ''Address 123'',
        Click ''//button[text()='Preview']'',
        Screenshot ''#robot-preview-image'' ''output/orders_screenshots/screenshot_a/b.png'',
        Click ''#order'', Sleep 300, alert_check 2000,
        InnerHtml ''#receipt'',
        HtmlToPdf (full_html ''bytes'' ''output/orders_screenshots/screenshot_a//b.png'')
          ''output/receipt_pdf/receipt_a/b.pdf'',
        Click ''#order-another'',
        modal_check 1000],
     printed = [],
     fs = [''output/orders_screenshots/screenshot_a/b.png'' \<mapsto> Png ''bytes'',
           ''output/receipt_pdf/receipt_a/b.pdf'' \<mapsto>
             Pdf (full_html ''bytes'' ''output/orders_screenshots/screenshot_a//b.png'')],
     page_inst = True, pdf_inst = True, archive_inst = False\<rparr>)"
  by (simp add: fill_and_submit_orders_def bnd_def subscript_def ret_def call_eq
      screenshot_robot_def element_screenshot_def call_with_eq submit_order_with_retry_def
      py_range_MAX_RETRIES retry_loop_Cons alert_seen_def alert_check_def
      store_receipt_as_pdf_def get_pdf_eq inner_html_def html_to_pdf_def
      close_annoying_modal_eq modal_seen_def modal_check_def attempt_events_def
      order_slash_def order_1_def site_def never_raises_def ready_world_def ERROR_TIMEOUT_def
      MODAL_TIMEOUT_def
      truediv_def parse_parts_def SCREENSHOTS_DIR_parts RECEIPTS_DIR_parts str_path_def)

text \<open>
  C4, without the condition on the order number: for the order number \<open>a//b\<close> the row is
  processed without error, but \<open>pathlib\<close> normalises the name, so the screenshot is
  written to \<open>output/orders_screenshots/screenshot_a/b.png\<close> and the receipt to
  \<open>output/receipt_pdf/receipt_a/b.pdf\<close>. No file exists at
  \<open>screenshot_a//b.png\<close> or \<open>receipt_a//b.pdf\<close>, and the receipt document refers to
  \<open>output/orders_screenshots/screenshot_a//b.png\<close>, which is not the path the screenshot
  call was given.
\<close>

theorem order_number_with_separator:
  "order_slash ''Order number'' = Some ''a//b'' \<and>
   fst (fill_and_submit_orders (site never_raises (\<lambda>h. False) (\<lambda>h. False) []) order_slash
          ready_world) = Inr () \<and>
   filter writes_file (issued ready_world
      (snd (fill_and_submit_orders (site never_raises (\<lambda>h. False) (\<lambda>h. False) []) order_slash
          ready_world))) =
     [Screenshot ''#robot-preview-image'' ''output/orders_screenshots/screenshot_a/b.png'',
      HtmlToPdf (full_html ''bytes'' ''output/orders_screenshots/screenshot_a//b.png'')
        ''output/receipt_pdf/receipt_a/b.pdf''] \<and>
   screenshot_file ''a//b'' = ''output/orders_screenshots/screenshot_a//b.png'' \<and>
   receipt_file ''a//b'' = ''output/receipt_pdf/receipt_a//b.pdf'' \<and>
   fs (snd (fill_and_submit_orders (site never_raises (\<lambda>h. False) (\<lambda>h. False) []) order_slash
          ready_world)) (screenshot_file ''a//b'') = None \<and>
   fs (snd (fill_and_submit_orders (site never_raises (\<lambda>h. False) (\<lambda>h. False) []) order_slash
          ready_world)) (receipt_file ''a//b'') = None"
  unfolding order_slash_world
  by (simp add: order_slash_def issued_def ready_world_def writes_file_def
      alert_check_def modal_check_def screenshot_file_def receipt_file_def)

subsection \<open>The whole run\<close>

lemma run_split:
  "order_robots_from_RobotSpareBin env =
     bnd (prepare_run env) (\<lambda>_. bnd (get_orders_from_csv env) (\<lambda>_. archive_receipts env))"
  by (simp add: order_robots_from_RobotSpareBin_def prepare_run_def bnd_assoc)

lemma for_rows_append:
  "for_rows env (xs @ ys) = bnd (for_rows env xs) (\<lambda>_. for_rows env ys)"
  by (induction xs) (simp_all add: bnd_assoc)

lemma get_page_returns:
  assumes "get_page env w = (Inr u, w')"
  shows "page_inst w' \<and> fs w' = fs w \<and>
         (trace w' = trace w \<or> trace w' = trace w @ [BrowserPage])"
  using assms by (cases "page_inst w") (auto simp: get_page_def bnd_eq_Inr_iff call_Inr_iff)

lemma prepare_run_returns:
  assumes "prepare_run env w = (Inr u, w')"
  shows "page_inst w' \<and> (\<exists>body. fs w' = (fs w)(''orders.csv'' \<mapsto> Body body)) \<and>
         (\<exists>es. trace w' = trace w @ es \<and> filter is_archive_call es = [] \<and>
               filter is_pdf_call es = [])"
proof -
  from assms obtain a b c d e
    where s1: "call env (Mkdir (str_path SCREENSHOTS_DIR)) w = (Inr (), a)"
      and s2: "call env (Mkdir (str_path RECEIPTS_DIR)) a = (Inr (), b)"
      and s3: "get_page env b = (Inr (), c)"
      and s4: "open_robot_order_website env c = (Inr (), d)"
      and s5: "close_annoying_modal env MODAL_TIMEOUT d = (Inr (), e)"
      and s6: "download_csv env e = (Inr (), w')"
    by (auto simp: prepare_run_def bnd_eq_Inr_iff)
  from s1 have a: "a = w\<lparr>trace := trace w @ [Mkdir (str_path SCREENSHOTS_DIR)]\<rparr>"
    by (simp add: call_Inr_iff)
  from s2 have b: "b = a\<lparr>trace := trace a @ [Mkdir (str_path RECEIPTS_DIR)]\<rparr>"
    by (simp add: call_Inr_iff)
  from get_page_returns [OF s3]
  have c: "page_inst c" "fs c = fs b"
    "trace c = trace b \<or> trace c = trace b @ [BrowserPage]"
    by simp_all
  from s4 c(1) have d: "d = c\<lparr>trace := trace c @ [Goto ROBOT_ORDER_URL]\<rparr>"
    by (simp add: open_robot_order_website_def bnd_def call_Inr_iff)
  have pd: "page_inst d" using c(1) by (simp add: d)
  from s5 have e: "e = d\<lparr>trace := trace d @ modal_check MODAL_TIMEOUT #
        (if modal_seen env (trace d) MODAL_TIMEOUT then [Click ''//button[text()='OK']'']
         else [])\<rparr>"
    by (simp add: close_annoying_modal_eq [OF pd])
  from s6 have w': "trace w' = trace e @ [csv_download]" "page_inst w' = page_inst e"
    "\<exists>body. fs w' = (fs e)(''orders.csv'' \<mapsto> Body body)"
    by (auto simp: download_csv_eq csv_download_def split: option.splits)
  have 1: "page_inst w'" using w'(2) pd by (simp add: e)
  have 2: "\<exists>body. fs w' = (fs w)(''orders.csv'' \<mapsto> Body body)"
    using w'(3) c(2) by (simp add: e d b a)
  have 3: "\<exists>es. trace w' = trace w @ es \<and> filter is_archive_call es = [] \<and>
               filter is_pdf_call es = []"
    using c(3) w'(1)
    by (auto simp: e d b a is_archive_call_def is_pdf_call_def modal_check_def csv_download_def)
  from 1 2 3 show ?thesis by blast
qed

lemma read_table_from_csv_returns:
  assumes "read_table_from_csv env path w = (Inr rows, w')"
  shows "w' = w\<lparr>trace := trace w @ [ReadTableFromCsv path]\<rparr>"
  using assms
  by (auto simp: read_table_from_csv_def bnd_eq_Inr_iff call_Inr_iff split: option.splits)

lemma filter_archive_attempts:
  "filter is_archive_call (concat (replicate n attempt_events)) = []"
  by (induction n) (simp_all add: attempt_events_def alert_check_def is_archive_call_def)

lemma filter_pdf_attempts:
  "filter is_pdf_call (concat (replicate n attempt_events)) = []"
  by (induction n) (simp_all add: attempt_events_def alert_check_def is_pdf_call_def)

lemma row_returns:
  assumes "page_inst w" and "fill_and_submit_orders env row w = (Inr u, w')"
  shows "page_inst w' \<and>
         (\<exists>es. trace w' = trace w @ es \<and> filter is_archive_call es = [] \<and>
               length (filter is_pdf_call es) = 1) \<and>
         (\<exists>order_no image html. row ''Order number'' = Some order_no \<and>
            fs w' = (fs w)(screenshot_path_of order_no \<mapsto> Png image,
                           receipt_path_of order_no \<mapsto> Pdf html))"
proof -
  from fill_and_submit_orders_returns [OF assms]
  obtain head body legs address order_no image receipt_html n tail
    where no: "row ''Order number'' = Some order_no"
      and tail: "tail = [] \<or> tail = [Click ''//button[text()='OK']'']"
      and tr: "trace w' = trace w @ form_events head body legs address @
                    [Click ''//button[text()='Preview']'',
                     Screenshot ''#robot-preview-image'' (screenshot_path_of order_no)] @
                    concat (replicate n attempt_events) @
                    [InnerHtml ''#receipt'',
                     HtmlToPdf (full_html receipt_html (screenshot_file order_no))
                       (receipt_path_of order_no),
                     Click ''#order-another'', modal_check MODAL_TIMEOUT] @ tail"
      and files: "fs w' = (fs w)(screenshot_path_of order_no \<mapsto> Png image,
                          receipt_path_of order_no \<mapsto>
                            Pdf (full_html receipt_html (screenshot_file order_no)))"
      and page: "page_inst w'"
    by blast
  let ?es = "form_events head body legs address @
                    [Click ''//button[text()='Preview']'',
                     Screenshot ''#robot-preview-image'' (screenshot_path_of order_no)] @
                    concat (replicate n attempt_events) @
                    [InnerHtml ''#receipt'',
                     HtmlToPdf (full_html receipt_html (screenshot_file order_no))
                       (receipt_path_of order_no),
                     Click ''#order-another'', modal_check MODAL_TIMEOUT] @ tail"
  have 1: "filter is_archive_call ?es = []"
    using tail
    by (auto simp: filter_archive_attempts form_events_def modal_check_def is_archive_call_def)
  have 2: "length (filter is_pdf_call ?es) = 1"
    using tail
    by (auto simp: filter_pdf_attempts form_events_def modal_check_def is_pdf_call_def)
  from tr 1 2 have "\<exists>es. trace w' = trace w @ es \<and> filter is_archive_call es = [] \<and>
               length (filter is_pdf_call es) = 1"
    by blast
  with page no files show ?thesis by blast
qed

lemma for_rows_returns:
  assumes "page_inst w" and "for_rows env rows w = (Inr u, w')"
  shows "page_inst w' \<and>
         (\<exists>es. trace w' = trace w @ es \<and> filter is_archive_call es = [] \<and>
               length (filter is_pdf_call es) = length rows)"
  using assms
proof (induction rows arbitrary: w)
  case Nil
  then show ?case by (simp add: ret_def)
next
  case (Cons row rest)
  from Cons.prems(2) obtain w1
    where 1: "fill_and_submit_orders env row w = (Inr (), w1)"
      and 2: "for_rows env rest w1 = (Inr u, w')"
    by (auto simp: bnd_eq_Inr_iff)
  from row_returns [OF Cons.prems(1) 1]
  obtain es1 where p1: "page_inst w1"
    and es1: "trace w1 = trace w @ es1" "filter is_archive_call es1 = []"
      "length (filter is_pdf_call es1) = 1"
    by blast
  from Cons.IH [OF p1 2]
  obtain es2 where p2: "page_inst w'"
    and es2: "trace w' = trace w1 @ es2" "filter is_archive_call es2 = []"
      "length (filter is_pdf_call es2) = length rest"
    by blast
  have "trace w' = trace w @ (es1 @ es2)" "filter is_archive_call (es1 @ es2) = []"
    "length (filter is_pdf_call (es1 @ es2)) = length (row # rest)"
    using es1 es2 by simp_all
  with p2 show ?case by blast
qed

lemma submit_order_with_retry_exhausts:
  assumes "page_inst w"
    and "\<forall>i<nat MAX_RETRIES. raises env (after_attempts (trace w) i) (Click ''#order'') = None"
    and "\<forall>i<nat MAX_RETRIES.
           alert_seen env (after_attempts (trace w) i @ [Click ''#order'', Sleep 300])
             ERROR_TIMEOUT"
  shows "\<exists>w'. submit_order_with_retry env MAX_RETRIES w =
             (Inl (Exception ''Order failed after 10 retry attempts''), w') \<and>
           trace w' = after_attempts (trace w) 10 \<and> fs w' = fs w"
proof -
  have len: "length (py_range MAX_RETRIES) = nat MAX_RETRIES"
    by (simp add: length_py_range)
  from retry_loop_exhausts [of w "py_range MAX_RETRIES" env MAX_RETRIES] assms
  obtain w' where "retry_loop env MAX_RETRIES (py_range MAX_RETRIES) w =
      (Inl (Exception (''Order failed after '' @ str_int MAX_RETRIES @ '' retry attempts'')), w')"
    and "trace w' = after_attempts (trace w) (nat MAX_RETRIES)" and "fs w' = fs w"
    unfolding len by blast
  then show ?thesis
    using assms(1)
    by (simp add: submit_order_with_retry_def bnd_def MAX_RETRIES_def str_int_10)
qed

text \<open>
  C3: suppose the run has come to some row of the feed (the preparation, the read of the
  feed, the rows before it and the form and screenshot of the row itself all returned),
  and the submit of that row sees the alert after every one of its \<open>MAX_RETRIES\<close> clicks.
  Then the whole run ends with the exception \<open>Order failed after 10 retry attempts\<close>. Its
  last calls are the ten attempts of that row, so no later row is touched; no file is
  written after the row's screenshot; no receipt is rendered for the row, and the receipts
  rendered in the run are those of the rows before it; and the archive call is never
  issued.
\<close>

theorem retry_exhaustion_aborts_run:
  assumes "prepare_run env w0 = (Inr (), w1)"
    and "read_table_from_csv env ORDERS_CSV_FILE w1 = (Inr (before @ row # after), w2)"
    and "for_rows env before w2 = (Inr (), w3)"
    and "fill_and_preview env row w3 = (Inr (), w4)"
    and "\<forall>i<nat MAX_RETRIES. raises env (after_attempts (trace w4) i) (Click ''#order'') = None"
    and "\<forall>i<nat MAX_RETRIES.
           alert_seen env (after_attempts (trace w4) i @ [Click ''#order'', Sleep 300])
             ERROR_TIMEOUT"
  shows "\<exists>w'. order_robots_from_RobotSpareBin env w0 =
                (Inl (Exception ''Order failed after 10 retry attempts''), w') \<and>
              trace w' = after_attempts (trace w4) 10 \<and>
              fs w' = fs w4 \<and>
              filter is_pdf_call (issued w3 w') = [] \<and>
              length (filter is_pdf_call (issued w0 w')) = length before \<and>
              filter is_archive_call (issued w0 w') = []"
proof -
  from prepare_run_returns [OF assms(1)]
  obtain es1 where p1: "page_inst w1"
    and es1: "trace w1 = trace w0 @ es1" "filter is_archive_call es1 = []"
      "filter is_pdf_call es1 = []"
    by blast
  from read_table_from_csv_returns [OF assms(2)]
  have w2: "w2 = w1\<lparr>trace := trace w1 @ [ReadTableFromCsv ORDERS_CSV_FILE]\<rparr>" .
  have p2: "page_inst w2" using p1 by (simp add: w2)
  from for_rows_returns [OF p2 assms(3)]
  obtain es3 where p3: "page_inst w3"
    and es3: "trace w3 = trace w2 @ es3" "filter is_archive_call es3 = []"
      "length (filter is_pdf_call es3) = length before"
    by blast
  from fill_and_preview_returns [OF p3 assms(4)]
  obtain head body legs address order_no image
    where w4: "w4 = w3\<lparr>trace := trace w3 @ form_events head body legs address @
                    [Click ''//button[text()='Preview']'',
                     Screenshot ''#robot-preview-image'' (screenshot_path_of order_no)],
                  fs := (fs w3)(screenshot_path_of order_no \<mapsto> Png image)\<rparr>"
    by blast
  have p4: "page_inst w4" using p3 by (simp add: w4)
  from submit_order_with_retry_exhausts [OF p4 assms(5,6)]
  obtain w' where sub: "submit_order_with_retry env MAX_RETRIES w4 =
             (Inl (Exception ''Order failed after 10 retry attempts''), w')"
    and tr: "trace w' = after_attempts (trace w4) 10" and files: "fs w' = fs w4"
    by blast
  have row: "fill_and_submit_orders env row w3 =
               (Inl (Exception ''Order failed after 10 retry attempts''), w')"
    using assms(4) sub by (simp add: fill_and_submit_orders_split bnd_def)
  have rows: "for_rows env (before @ row # after) w2 =
               (Inl (Exception ''Order failed after 10 retry attempts''), w')"
    using assms(3) row by (simp add: for_rows_append bnd_def)
  have feed: "get_orders_from_csv env w1 =
               (Inl (Exception ''Order failed after 10 retry attempts''), w')"
    using assms(2) rows by (simp add: get_orders_from_csv_def bnd_def)
  have run: "order_robots_from_RobotSpareBin env w0 =
               (Inl (Exception ''Order failed after 10 retry attempts''), w')"
    using assms(1) feed by (simp add: run_split bnd_def)
  let ?row_es = "form_events head body legs address @
                    [Click ''//button[text()='Preview']'',
                     Screenshot ''#robot-preview-image'' (screenshot_path_of order_no)] @
                    concat (replicate 10 attempt_events)"
  have t3: "trace w' = trace w3 @ ?row_es"
    by (simp add: tr w4 after_attempts_def)
  have i3: "issued w3 w' = ?row_es"
    by (rule issued_append) (rule t3)
  have t0: "trace w' = trace w0 @ (es1 @ [ReadTableFromCsv ORDERS_CSV_FILE] @ es3 @ ?row_es)"
    by (simp add: t3 es3(1) w2 es1(1))
  have i0: "issued w0 w' = es1 @ [ReadTableFromCsv ORDERS_CSV_FILE] @ es3 @ ?row_es"
    by (rule issued_append) (rule t0)
  have f1: "filter is_pdf_call ?row_es = []"
    by (simp add: filter_pdf_attempts form_events_def is_pdf_call_def)
  have f2: "filter is_archive_call ?row_es = []"
    by (simp add: filter_archive_attempts form_events_def is_archive_call_def)
  have c1: "filter is_pdf_call (issued w3 w') = []"
    by (simp only: i3 f1)
  have c2: "length (filter is_pdf_call (issued w0 w')) = length before"
    by (simp add: i0 es1(3) es3(3) filter_pdf_attempts form_events_def is_pdf_call_def)
  have c3: "filter is_archive_call (issued w0 w') = []"
    by (simp add: i0 es1(2) es3(2) filter_archive_attempts form_events_def is_archive_call_def)
  from run tr files c1 c2 c3 show ?thesis by blast
qed

lemma prepare_run_fresh:
  "prepare_run (site never_raises (\<lambda>h. False) alert rows) (fresh_world\<lparr>fs := files\<rparr>) =
   (Inr (),
    \<lparr>trace = [Mkdir ''output/orders_screenshots'', Mkdir ''output/receipt_pdf'', BrowserPage,
              Goto ''https://robotsparebinindustries.com/#/robot-order'',
              modal_check 1000, csv_download],
     printed = [], fs = files(''orders.csv'' \<mapsto> Body ''bytes''),
     page_inst = True, pdf_inst = False, archive_inst = False\<rparr>)"
  by (simp add: prepare_run_def bnd_def call_eq get_page_def open_robot_order_website_def
      close_annoying_modal_eq download_csv_eq modal_seen_def modal_check_def csv_download_def
      site_def never_raises_def fresh_world_def MODAL_TIMEOUT_def ROBOT_ORDER_URL_def
      SCREENSHOTS_DIR_parts RECEIPTS_DIR_parts str_path_def)

theorem retry_exhaustion_aborts_run_witness:
  "\<exists>w'. order_robots_from_RobotSpareBin (site never_raises (\<lambda>h. False) (\<lambda>h. True) [order_1])
           fresh_world =
           (Inl (Exception ''Order failed after 10 retry attempts''), w') \<and>
         submit_clicks fresh_world w' = 10 \<and>
         filter is_pdf_call (issued fresh_world w') = [] \<and>
         filter is_archive_call (issued fresh_world w') = [] \<and>
         fs w' = [''orders.csv'' \<mapsto> Body ''bytes'',
                  ''output/orders_screenshots/screenshot_1.png'' \<mapsto> Png ''bytes'']"
proof -
  let ?env = "site never_raises (\<lambda>h. False) (\<lambda>h. True) [order_1]"
  let ?t1 = "[Mkdir ''output/orders_screenshots'', Mkdir ''output/receipt_pdf'', BrowserPage,
              Goto ''https://robotsparebinindustries.com/#/robot-order'',
              modal_check 1000, csv_download]"
  let ?w1 = "\<lparr>trace = ?t1,
     printed = [], fs = [''orders.csv'' \<mapsto> Body ''bytes''],
     page_inst = True, pdf_inst = False, archive_inst = False\<rparr>"
  let ?t2 = "?t1 @ [ReadTableFromCsv ''orders.csv'']"
  let ?w2 = "\<lparr>trace = ?t2,
     printed = [], fs = [''orders.csv'' \<mapsto> Body ''bytes''],
     page_inst = True, pdf_inst = False, archive_inst = False\<rparr>"
  let ?t4 = "?t2 @ [SelectOption ''#head'' ''1'',
        CheckInput ''input[type='radio'][value='2']'',
        FillPlaceholder ''Enter the part number for the legs'' ''3'',
        FillPlaceholder ''Shipping address'' ''Address 123'',
        Click ''//button[text()='Preview']'',
        Screenshot ''#robot-preview-image'' ''output/orders_screenshots/screenshot_1.png'']"
  let ?w4 = "\<lparr>trace = ?t4,
     printed = [], fs = [''orders.csv'' \<mapsto> Body ''bytes'',
                  ''output/orders_screenshots/screenshot_1.png'' \<mapsto> Png ''bytes''],
     page_inst = True, pdf_inst = False, archive_inst = False\<rparr>"
  have h1: "prepare_run ?env fresh_world = (Inr (), ?w1)"
    using prepare_run_fresh [of "\<lambda>h. True" "[order_1]" Map.empty]
    by (simp add: fresh_world_def)
  have h2: "read_table_from_csv ?env ORDERS_CSV_FILE ?w1 = (Inr ([] @ order_1 # []), ?w2)"
    by (simp add: read_table_from_csv_def bnd_def call_eq site_def never_raises_def
        ORDERS_CSV_FILE_def)
  have h3: "for_rows ?env [] ?w2 = (Inr (), ?w2)"
    by (simp add: ret_def)
  have h4: "fill_and_preview ?env order_1 ?w2 = (Inr (), ?w4)"
    by (simp add: fill_and_preview_def bnd_def subscript_def ret_def call_eq
        screenshot_robot_def element_screenshot_def call_with_eq
        order_1_def site_def never_raises_def
        truediv_def parse_parts_def SCREENSHOTS_DIR_parts str_path_def)
  have h5: "\<forall>i<nat MAX_RETRIES.
              raises ?env (after_attempts (trace ?w4) i) (Click ''#order'') = None"
    by (simp add: site_def never_raises_def)
  have h6: "\<forall>i<nat MAX_RETRIES. alert_seen ?env
              (after_attempts (trace ?w4) i @ [Click ''#order'', Sleep 300]) ERROR_TIMEOUT"
    by (simp add: alert_seen_def alert_check_def site_def never_raises_def)
  from retry_exhaustion_aborts_run [OF h1 h2 h3 h4 h5 h6]
  obtain w' where run: "order_robots_from_RobotSpareBin ?env fresh_world =
           (Inl (Exception ''Order failed after 10 retry attempts''), w')"
    and tr: "trace w' = after_attempts (trace ?w4) 10"
    and files: "fs w' = fs ?w4"
    and pdf: "length (filter is_pdf_call (issued fresh_world w')) = length ([] :: order list)"
    and arc: "filter is_archive_call (issued fresh_world w') = []"
    by blast
  have clicks: "submit_clicks fresh_world w' = 10"
    by (simp add: submit_clicks_def issued_def fresh_world_def tr after_attempts_def
        count_attempts modal_check_def csv_download_def)
  from run clicks pdf arc files show ?thesis by simp
qed

subsection \<open>The archive\<close>














end
